(* ===== verification/Prelude.thy ===== *)
theory Prelude
  imports Main
begin

text \<open>
  Shared vocabulary of the timer development. The slots of \<^verbatim>\<open>src/timer.py\<close> are
  sequences of Python statements that mutate the attributes of the \<^verbatim>\<open>Window\<close>
  object; one of them (\<^verbatim>\<open>timerFunc\<close>) relies on an \<^verbatim>\<open>AttributeError\<close> being
  raised half-way through a block and caught by \<^verbatim>\<open>except\<close>. Python keeps every
  mutation made before the raise, so a statement's outcome records the state at the
  point where it stopped: \<open>Normal s\<close> when the statement completed, \<open>Raised e s\<close>
  when it raised \<open>e\<close> in state \<open>s\<close>. A block runs its statements left to right and
  stops at the first raise; \<open>py_try_attr\<close> is \<^verbatim>\<open>try: ... except AttributeError: ...\<close>.
\<close>

named_theorems py_stmt_simps "evaluation rules of the Python statement combinators"
named_theorems widget_simps "effect of the Qt widget calls on the window state"

datatype pyexc = AttributeError

datatype 's outcome = Normal 's | Raised pyexc 's

type_synonym 's stmt = "'s \<Rightarrow> 's outcome"

primrec outcome_state :: "'s outcome \<Rightarrow> 's" where
  "outcome_state (Normal s) = s"
| "outcome_state (Raised e s) = s"

text \<open>A statement that cannot raise: an assignment or a widget call.\<close>

definition py_do :: "('s \<Rightarrow> 's) \<Rightarrow> 's stmt" where
  "py_do f s = Normal (f s)"

text \<open>A block of statements: run in order, stop at the first exception.\<close>

fun py_block :: "'s stmt list \<Rightarrow> 's stmt" where
  "py_block [] s = Normal s"
| "py_block (f # fs) s = (case f s of Normal s' \<Rightarrow> py_block fs s' | Raised e s' \<Rightarrow> Raised e s')"

text \<open>\<^verbatim>\<open>try: body except AttributeError: handler\<close>: the handler runs in the state the
  body had reached when it raised.\<close>

definition py_try_attr :: "'s stmt \<Rightarrow> 's stmt \<Rightarrow> 's stmt" where
  "py_try_attr body handler s =
     (case body s of
        Normal s' \<Rightarrow> Normal s'
      | Raised AttributeError s' \<Rightarrow> handler s')"

text \<open>Reading an attribute that was never assigned raises \<^verbatim>\<open>AttributeError\<close>.\<close>

definition py_read :: "('s \<Rightarrow> 'a option) \<Rightarrow> ('a \<Rightarrow> 's stmt) \<Rightarrow> 's stmt" where
  "py_read get k s = (case get s of None \<Rightarrow> Raised AttributeError s | Some v \<Rightarrow> k v s)"

subsection \<open>Evaluation rules\<close>

text \<open>The conditional rules below evaluate a block once the attribute reads are known;
  the unconditional unfoldings of \<open>py_read\<close> and \<open>py_try_attr\<close> are in the collection
  for proofs that must split on an attribute that a block itself assigns.\<close>

declare py_read_def [py_stmt_simps] py_try_attr_def [py_stmt_simps]

lemma py_do_apply [py_stmt_simps, simp]: "py_do f s = Normal (f s)"
  by (simp add: py_do_def)

lemma py_block_Cons_Normal [py_stmt_simps, simp]:
  "f s = Normal s' \<Longrightarrow> py_block (f # fs) s = py_block fs s'"
  by simp

lemma py_block_Cons_Raised [py_stmt_simps, simp]:
  "f s = Raised e s' \<Longrightarrow> py_block (f # fs) s = Raised e s'"
  by simp

lemma py_block_do_Cons [py_stmt_simps, simp]:
  "py_block (py_do f # fs) s = py_block fs (f s)"
  by simp

lemma py_try_attr_Normal [py_stmt_simps, simp]:
  "body s = Normal s' \<Longrightarrow> py_try_attr body handler s = Normal s'"
  by (simp add: py_try_attr_def)

lemma py_try_attr_Raised [py_stmt_simps, simp]:
  "body s = Raised AttributeError s' \<Longrightarrow> py_try_attr body handler s = handler s'"
  by (simp add: py_try_attr_def)

lemma py_read_None [py_stmt_simps, simp]:
  "get s = None \<Longrightarrow> py_read get k s = Raised AttributeError s"
  by (simp add: py_read_def)

lemma py_read_Some [py_stmt_simps, simp]:
  "get s = Some v \<Longrightarrow> py_read get k s = k v s"
  by (simp add: py_read_def)

end
