(* ===== verification/PyFormat.thy ===== *)
theory PyFormat
  imports Prelude
begin

text \<open>
  The label text of the timer. Every label update in \<^verbatim>\<open>src/timer.py\<close> (lines 85,
  93, 100, 108) evaluates \<^verbatim>\<open>'%02d:%02d' % (c // 60, c % 60)\<close> on a Python
  \<^verbatim>\<open>int\<close>. Python's \<^verbatim>\<open>//\<close> and \<^verbatim>\<open>%\<close> round towards minus infinity, as
  HOL's \<open>div\<close> and \<open>mod\<close> on \<open>int\<close> do, and \<^verbatim>\<open>%0wd\<close> writes the sign first and
  pads the decimal digits with zeros to a total width of \<open>w\<close>
  (\<^verbatim>\<open>'%02d' % -1 == '-1'\<close>, \<^verbatim>\<open>'%03d' % -5 == '-05'\<close>). The theory proves that
  on the label's range the text is exactly \<^verbatim>\<open>MM:SS\<close> and that reading it back
  gives the count again.
\<close>

definition digit_char :: "nat \<Rightarrow> char" where
  "digit_char d = char_of (48 + d)"

text \<open>\<^verbatim>\<open>str(n)\<close> for a non-negative \<^verbatim>\<open>int\<close>: its decimal digits.\<close>

fun nat_digits :: "nat \<Rightarrow> string" where
  "nat_digits n = (if n < 10 then [digit_char n] else nat_digits (n div 10) @ [digit_char (n mod 10)])"

declare nat_digits.simps [simp del]

text \<open>\<^verbatim>\<open>'%0wd' % n\<close>.\<close>

definition py_fmt_0d :: "nat \<Rightarrow> int \<Rightarrow> string" where
  "py_fmt_0d w n =
     (let sign = (if n < 0 then ''-'' else '''');
          ds = nat_digits (nat \<bar>n\<bar>)
      in sign @ replicate (w - length sign - length ds) (CHR ''0'') @ ds)"

text \<open>\<^verbatim>\<open>'%02d:%02d' % (c // 60, c % 60)\<close>.\<close>

definition fmt_mmss :: "int \<Rightarrow> string" where
  "fmt_mmss c = py_fmt_0d 2 (c div 60) @ '':'' @ py_fmt_0d 2 (c mod 60)"

subsection \<open>Reading a label back\<close>

text \<open>
  Not part of the program: the reader's side of the label, used to state that the text
  determines the count. \<open>parse_mmss\<close> accepts exactly two digits, a colon, and two
  digits of which the first is below 6.
\<close>

definition is_digit :: "char \<Rightarrow> bool" where
  "is_digit ch \<longleftrightarrow> (48::nat) \<le> of_char ch \<and> of_char ch \<le> (57::nat)"

definition digit_val :: "char \<Rightarrow> nat" where
  "digit_val ch = of_char ch - 48"

fun parse_mmss :: "string \<Rightarrow> int option" where
  "parse_mmss [m1, m2, sep, s1, s2] =
     (if sep = CHR '':'' \<and> list_all is_digit [m1, m2, s1, s2] \<and> digit_val s1 < 6
      then Some (int (60 * (10 * digit_val m1 + digit_val m2) + 10 * digit_val s1 + digit_val s2))
      else None)"
| "parse_mmss _ = None"

definition digits_value :: "string \<Rightarrow> nat" where
  "digits_value ds = foldl (\<lambda>acc ch. 10 * acc + digit_val ch) 0 ds"

text \<open>The shape of a reading of a clock's first hour, \<^verbatim>\<open>MM:SS\<close>: two digits, a
  colon and two digits, both fields below 60.\<close>

fun mmss_shape :: "string \<Rightarrow> bool" where
  "mmss_shape [m1, m0, sep, s1, s0] \<longleftrightarrow>
     list_all is_digit [m1, m0, s1, s0] \<and> sep = CHR '':'' \<and> digit_val m1 < 6 \<and> digit_val s1 < 6"
| "mmss_shape _ \<longleftrightarrow> False"

subsection \<open>Digits\<close>

lemma digit_char_digit [simp]: "d < 10 \<Longrightarrow> is_digit (digit_char d)"
  by (simp add: digit_char_def is_digit_def)

lemma digit_val_char [simp]: "d < 10 \<Longrightarrow> digit_val (digit_char d) = d"
  by (simp add: digit_char_def digit_val_def)

lemma digit_char_val [simp]: "is_digit ch \<Longrightarrow> digit_char (digit_val ch) = ch"
  by (simp add: digit_char_def digit_val_def is_digit_def)

lemma digit_val_lt10: "is_digit ch \<Longrightarrow> digit_val ch < 10"
  unfolding digit_val_def is_digit_def by linarith

lemma digit_char_zero: "digit_char 0 = CHR ''0''"
proof -
  have "of_char CHR ''0'' = (48::nat)" by simp
  then show ?thesis unfolding digit_char_def by (metis add_0_right char_of_char)
qed

lemma digit_char_not_colon [simp]: "d < 10 \<Longrightarrow> digit_char d \<noteq> CHR '':''"
proof
  assume "d < 10" "digit_char d = CHR '':''"
  then have "of_char (digit_char d) = (of_char CHR '':'' :: nat)" by simp
  with \<open>d < 10\<close> show False by (simp add: digit_char_def)
qed

lemma nat_digits_lt10 [simp]: "n < 10 \<Longrightarrow> nat_digits n = [digit_char n]"
  by (simp add: nat_digits.simps)

lemma nat_digits_ge10: "10 \<le> n \<Longrightarrow> nat_digits n = nat_digits (n div 10) @ [digit_char (n mod 10)]"
  by (subst nat_digits.simps) simp

lemma nat_digits_two: "10 \<le> n \<Longrightarrow> n < 100 \<Longrightarrow> nat_digits n = [digit_char (n div 10), digit_char (n mod 10)]"
  by (simp add: nat_digits_ge10)

lemma nat_digits_all_digits: "list_all is_digit (nat_digits n)"
proof (induction n rule: nat_digits.induct)
  case (1 n)
  then show ?case by (subst nat_digits.simps) simp
qed

text \<open>\<^verbatim>\<open>int(str(n)) == n\<close>: the digits printed are the number's value.\<close>

lemma digits_value_snoc: "digits_value (ds @ [ch]) = 10 * digits_value ds + digit_val ch"
  by (simp add: digits_value_def)

lemma digits_value_nat_digits: "digits_value (nat_digits n) = n"
proof (induction n rule: nat_digits.induct)
  case (1 n)
  show ?case
  proof (cases "n < 10")
    case True
    then show ?thesis by (simp add: digits_value_def)
  next
    case False
    with "1.IH" show ?thesis by (simp add: nat_digits_ge10 digits_value_snoc)
  qed
qed

subsection \<open>Zero-padded fields\<close>

lemma py_fmt_02_two:
  assumes "0 \<le> n" "n < 100"
  shows "py_fmt_0d 2 n = [digit_char (nat n div 10), digit_char (nat n mod 10)]"
proof (cases "n < 10")
  case True
  with assms show ?thesis by (simp add: py_fmt_0d_def Let_def numeral_2_eq_2 digit_char_zero)
next
  case False
  with assms have "10 \<le> nat n" "nat n < 100" by auto
  with assms show ?thesis by (simp add: py_fmt_0d_def Let_def nat_digits_two)
qed

lemma fmt_mmss_chars:
  assumes "0 \<le> c" "c < 6000"
  shows "fmt_mmss c =
    [digit_char (nat c div 60 div 10), digit_char (nat c div 60 mod 10), CHR '':'',
     digit_char (nat c mod 60 div 10), digit_char (nat c mod 60 mod 10)]"
proof -
  have m: "py_fmt_0d 2 (c div 60) = [digit_char (nat c div 60 div 10), digit_char (nat c div 60 mod 10)]"
    using assms by (simp add: py_fmt_02_two nat_div_distrib)
  have s: "py_fmt_0d 2 (c mod 60) = [digit_char (nat c mod 60 div 10), digit_char (nat c mod 60 mod 10)]"
    using assms by (simp add: py_fmt_02_two nat_mod_distrib)
  show ?thesis by (simp add: fmt_mmss_def m s)
qed

lemma fmt_mmss_length: "0 \<le> c \<Longrightarrow> c < 6000 \<Longrightarrow> length (fmt_mmss c) = 5"
  by (simp add: fmt_mmss_chars)

lemma fmt_mmss_minutes_seconds:
  assumes "m < 100" "s < 60"
  shows "fmt_mmss (int (m * 60 + s)) =
    [digit_char (m div 10), digit_char (m mod 10), CHR '':'', digit_char (s div 10), digit_char (s mod 10)]"
proof -
  have "int (m * 60 + s) < 6000" using assms by simp
  moreover have "(m * 60 + s) div 60 = m" "(m * 60 + s) mod 60 = s" using assms by simp_all
  ultimately show ?thesis by (simp add: fmt_mmss_chars del: of_nat_add of_nat_mult)
qed


text \<open>The two boundary counts of a tick with duration 0: Python's floor division and
  modulo give \<open>-1 // 60 = -1\<close> and \<open>-1 % 60 = 59\<close>, and \<^verbatim>\<open>'%02d' % -1\<close> is
  \<^verbatim>\<open>'-1'\<close>, the sign counting toward the width.\<close>

lemma fmt_mmss_minus_one: "fmt_mmss (-1) = ''-1:59''"
  by code_simp

lemma fmt_mmss_zero: "fmt_mmss 0 = ''00:00''"
  by code_simp

lemma fmt_mmss_shape: "0 \<le> c \<Longrightarrow> c < 3600 \<Longrightarrow> mmss_shape (fmt_mmss c)"
  by (simp add: fmt_mmss_chars less_mult_imp_div_less)


text \<open>Reading a printed label back gives the count, on the range where both fields
  have two digits.\<close>

lemma parse_fmt_mmss:
  assumes "0 \<le> c" "c < 6000"
  shows "parse_mmss (fmt_mmss c) = Some c"
proof -
  let ?m = "nat c div 60" and ?s = "nat c mod 60"
  have "?m < 100" "?s < 60" using assms by simp_all
  then have "60 * (10 * (?m div 10) + ?m mod 10) + 10 * (?s div 10) + ?s mod 10 = nat c"
    by simp
  moreover have "?s div 10 < 6" using \<open>?s < 60\<close> by simp
  ultimately show ?thesis using assms \<open>?m < 100\<close>
    by (simp add: fmt_mmss_chars)
qed

text \<open>C9: the other direction of the round trip: any text that reads as a valid
  \<^verbatim>\<open>MM:SS\<close> is exactly what \<^verbatim>\<open>'%02d:%02d' % (c // 60, c % 60)\<close> prints for the
  count it denotes, so the label format loses nothing.\<close>

theorem fmt_parse_mmss:
  assumes "parse_mmss str = Some c"
  shows "fmt_mmss c = str"
proof -
  obtain m1 m2 sep s1 s2 where str: "str = [m1, m2, sep, s1, s2]"
    using assms by (cases str rule: parse_mmss.cases) auto
  with assms have sep: "sep = CHR '':''" and dig: "is_digit m1" "is_digit m2" "is_digit s1" "is_digit s2"
    and s1: "digit_val s1 < 6"
    and c: "c = int (60 * (10 * digit_val m1 + digit_val m2) + 10 * digit_val s1 + digit_val s2)"
    by (auto split: if_splits)
  let ?m = "10 * digit_val m1 + digit_val m2" and ?s = "10 * digit_val s1 + digit_val s2"
  have lt: "digit_val m1 < 10" "digit_val m2 < 10" "digit_val s2 < 10"
    using dig by (simp_all add: digit_val_lt10)
  then have "?m < 100" "?s < 60" using s1 by simp_all
  then have "fmt_mmss c = [digit_char (?m div 10), digit_char (?m mod 10), CHR '':'',
      digit_char (?s div 10), digit_char (?s mod 10)]"
  proof -
    have "c = int (?m * 60 + ?s)" using c by simp
    then show ?thesis using fmt_mmss_minutes_seconds [OF \<open>?m < 100\<close> \<open>?s < 60\<close>] by simp
  qed
  also have "\<dots> = str" using lt s1 dig str sep by simp
  finally show ?thesis .
qed
theorem fmt_parse_mmss_witness:
  "parse_mmss ''07:42'' = Some 462 \<and> fmt_mmss 462 = ''07:42''"
proof -
  have p: "parse_mmss ''07:42'' = Some 462" by code_simp
  show ?thesis using p fmt_parse_mmss [OF p] by simp
qed

end
