(* ===== verification/Window.thy ===== *)
theory Window
  imports PyFormat
begin

text \<open>
  The state of the program: the attributes of the single \<^verbatim>\<open>Window\<close> object of
  \<^verbatim>\<open>src/timer.py\<close> and the parts of its Qt widgets that the slots read or write.
  Python attributes that are assigned only by a slot (\<^verbatim>\<open>self.time\<close>,
  \<^verbatim>\<open>self.counter\<close>, \<^verbatim>\<open>self.old_count\<close>) are options: \<open>None\<close> until the first
  assignment, when reading them raises \<^verbatim>\<open>AttributeError\<close>. Each Qt call the slots make
  (\<^verbatim>\<open>setText\<close>, \<^verbatim>\<open>toggle\<close>, \<^verbatim>\<open>setDisabled\<close>, \<^verbatim>\<open>start\<close>, \<^verbatim>\<open>stop\<close>,
  \<^verbatim>\<open>show\<close>, \<^verbatim>\<open>hide\<close>, \<^verbatim>\<open>play\<close>, and the presentation calls of
  \<^verbatim>\<open>setUpMainWindow\<close>) is one function on this state, with the
  effect Qt documents for it. The start state is what \<^verbatim>\<open>Window.__init__\<close> builds.
\<close>

subsection \<open>QTime\<close>

text \<open>
  \<^verbatim>\<open>QTime(h, m, s, ms)\<close>. Qt accepts any arguments but the value is valid only for
  \<open>h < 24\<close>, \<open>m < 60\<close>, \<open>s < 60\<close>, \<open>ms < 1000\<close>; the accessors \<^verbatim>\<open>minute()\<close>
  and \<^verbatim>\<open>second()\<close> of a valid time are therefore below 60. Times are compared by
  their position in the day, \<open>qtime_msecs\<close>.
\<close>

datatype qtime = QTime (qt_hour: nat) (qt_minute: nat) (qt_second: nat) (qt_msec: nat)

definition qtime_valid :: "qtime \<Rightarrow> bool" where
  "qtime_valid t \<longleftrightarrow> qt_hour t < 24 \<and> qt_minute t < 60 \<and> qt_second t < 60 \<and> qt_msec t < 1000"

text \<open>\<^verbatim>\<open>QTime.msecsSinceStartOfDay()\<close>: Qt compares times by this number.\<close>

definition qtime_msecs :: "qtime \<Rightarrow> nat" where
  "qtime_msecs t = ((qt_hour t * 60 + qt_minute t) * 60 + qt_second t) * 1000 + qt_msec t"

text \<open>The same order field by field (lemma \<open>qtime_le_msecs\<close>: on valid times it is
  the order of \<open>qtime_msecs\<close>), which evaluates without large products.\<close>

definition qtime_le :: "qtime \<Rightarrow> qtime \<Rightarrow> bool" where
  "qtime_le t u \<longleftrightarrow>
     qt_hour t < qt_hour u \<or> qt_hour t = qt_hour u \<and>
     (qt_minute t < qt_minute u \<or> qt_minute t = qt_minute u \<and>
     (qt_second t < qt_second u \<or> qt_second t = qt_second u \<and> qt_msec t \<le> qt_msec u))"

subsection \<open>The window state\<close>

text \<open>The three widgets \<^verbatim>\<open>setLayout\<close> places in the window.\<close>

datatype widget = Timer_lbl | Edit_time | Start_stop_btn

text \<open>A widget's geometry, \<^verbatim>\<open>QRect(x, y, width, height)\<close>, and the label's
  alignment: Qt's default for a \<^verbatim>\<open>QLabel\<close> (left, vertically centred) or
  \<^verbatim>\<open>Qt.AlignCenter\<close>.\<close>

datatype rect = Rect (rect_x: int) (rect_y: int) (rect_w: nat) (rect_h: nat)

datatype alignment = AlignLeftVCenter | AlignCenter

record window =
  time :: "qtime option"      \<comment> \<open>\<^verbatim>\<open>self.time\<close>\<close>
  counter :: "int option"     \<comment> \<open>\<^verbatim>\<open>self.counter\<close>\<close>
  old_count :: "int option"   \<comment> \<open>\<^verbatim>\<open>self.old_count\<close>\<close>
  timer_lbl :: string         \<comment> \<open>text of \<^verbatim>\<open>self.timer_lbl\<close>\<close>
  edit_time :: qtime          \<comment> \<open>value of \<^verbatim>\<open>self.edit_time\<close>\<close>
  edit_max :: qtime           \<comment> \<open>its \<^verbatim>\<open>maximumTime()\<close>\<close>
  edit_enabled :: bool        \<comment> \<open>\<^verbatim>\<open>self.edit_time.isEnabled()\<close>\<close>
  btn_checked :: bool         \<comment> \<open>\<^verbatim>\<open>self.start_stop_btn.isChecked()\<close>\<close>
  btn_text :: string          \<comment> \<open>\<^verbatim>\<open>self.start_stop_btn.text()\<close>\<close>
  timer_active :: bool        \<comment> \<open>\<^verbatim>\<open>self.timer.isActive()\<close>\<close>
  timer_interval :: nat       \<comment> \<open>\<^verbatim>\<open>self.timer.interval()\<close>, milliseconds\<close>
  ding :: bool                \<comment> \<open>\<^verbatim>\<open>self.ding\<close> has been assigned a player\<close>
  plays :: nat                \<comment> \<open>number of \<^verbatim>\<open>self.ding.play()\<close> calls so far\<close>
  visible :: bool             \<comment> \<open>\<^verbatim>\<open>self.isVisible()\<close>\<close>
  tray_visible :: bool        \<comment> \<open>\<^verbatim>\<open>self.tray.isVisible()\<close>\<close>
  central :: "widget list"    \<comment> \<open>the central widget's vertical layout, top to bottom\<close>
  tray_icon :: "string option" \<comment> \<open>file of \<^verbatim>\<open>self.tray\<close>'s icon; \<open>None\<close> before \<^verbatim>\<open>systemTray\<close>\<close>
  title :: string             \<comment> \<open>\<^verbatim>\<open>self.windowTitle()\<close>\<close>
  geometry :: rect            \<comment> \<open>\<^verbatim>\<open>self.geometry()\<close>\<close>
  fixed_size :: "(nat \<times> nat) option" \<comment> \<open>size fixed by \<^verbatim>\<open>setFixedSize\<close>, if any\<close>
  lbl_font :: "(string \<times> nat) option" \<comment> \<open>family and point size of the label's font; \<open>None\<close>: the application's\<close>
  lbl_align :: alignment      \<comment> \<open>\<^verbatim>\<open>self.timer_lbl.alignment()\<close>\<close>
  edit_format :: "string option" \<comment> \<open>\<^verbatim>\<open>self.edit_time.displayFormat()\<close>; \<open>None\<close>: the locale's\<close>
  btn_checkable :: bool       \<comment> \<open>\<^verbatim>\<open>self.start_stop_btn.isCheckable()\<close>\<close>

subsection \<open>Widget calls\<close>

definition set_lbl_text :: "string \<Rightarrow> window \<Rightarrow> window" where
  "set_lbl_text txt s = s\<lparr>timer_lbl := txt\<rparr>"

definition set_btn_text :: "string \<Rightarrow> window \<Rightarrow> window" where
  "set_btn_text txt s = s\<lparr>btn_text := txt\<rparr>"

text \<open>\<^verbatim>\<open>QAbstractButton.toggle()\<close> flips the checked state of a checkable
  button and does nothing to one that is not; it emits \<^verbatim>\<open>toggled\<close>, not
  \<^verbatim>\<open>clicked\<close>, so it does not re-enter \<^verbatim>\<open>startStop\<close>. A click toggles the
  same way before it emits \<^verbatim>\<open>clicked\<close>.\<close>

definition btn_toggle :: "window \<Rightarrow> window" where
  "btn_toggle s = (if btn_checkable s then s\<lparr>btn_checked := \<not> btn_checked s\<rparr> else s)"

definition set_edit_disabled :: "bool \<Rightarrow> window \<Rightarrow> window" where
  "set_edit_disabled b s = s\<lparr>edit_enabled := \<not> b\<rparr>"

definition timer_start :: "nat \<Rightarrow> window \<Rightarrow> window" where
  "timer_start ms s = s\<lparr>timer_active := True, timer_interval := ms\<rparr>"

definition timer_stop :: "window \<Rightarrow> window" where
  "timer_stop s = s\<lparr>timer_active := False\<rparr>"

definition win_show :: "window \<Rightarrow> window" where
  "win_show s = s\<lparr>visible := True\<rparr>"

definition win_hide :: "window \<Rightarrow> window" where
  "win_hide s = s\<lparr>visible := False\<rparr>"

definition tray_hide :: "window \<Rightarrow> window" where
  "tray_hide s = s\<lparr>tray_visible := False\<rparr>"

definition tray_set_visible :: "bool \<Rightarrow> window \<Rightarrow> window" where
  "tray_set_visible b s = s\<lparr>tray_visible := b\<rparr>"

subsection \<open>Presentation calls of \<^verbatim>\<open>setUpMainWindow\<close>\<close>

definition set_window_title :: "string \<Rightarrow> window \<Rightarrow> window" where
  "set_window_title txt s = s\<lparr>title := txt\<rparr>"

definition set_geometry :: "int \<Rightarrow> int \<Rightarrow> nat \<Rightarrow> nat \<Rightarrow> window \<Rightarrow> window" where
  "set_geometry x y w h s = s\<lparr>geometry := Rect x y w h\<rparr>"

text \<open>\<^verbatim>\<open>setFixedSize(w, h)\<close> sets the minimum and the maximum size to \<open>(w, h)\<close>
  and resizes the widget to it, keeping its position.\<close>

definition set_fixed_size :: "nat \<Rightarrow> nat \<Rightarrow> window \<Rightarrow> window" where
  "set_fixed_size w h s =
     s\<lparr>fixed_size := Some (w, h), geometry := Rect (rect_x (geometry s)) (rect_y (geometry s)) w h\<rparr>"

definition set_lbl_font :: "string \<Rightarrow> nat \<Rightarrow> window \<Rightarrow> window" where
  "set_lbl_font family pt s = s\<lparr>lbl_font := Some (family, pt)\<rparr>"

definition set_lbl_alignment :: "alignment \<Rightarrow> window \<Rightarrow> window" where
  "set_lbl_alignment a s = s\<lparr>lbl_align := a\<rparr>"

definition set_display_format :: "string \<Rightarrow> window \<Rightarrow> window" where
  "set_display_format fmt s = s\<lparr>edit_format := Some fmt\<rparr>"

definition set_checkable :: "bool \<Rightarrow> window \<Rightarrow> window" where
  "set_checkable b s = s\<lparr>btn_checkable := b\<rparr>"

text \<open>The sections of a time a user can change in a \<^verbatim>\<open>QTimeEdit\<close> whose display
  format is \<open>fmt\<close>: the ones the format shows (\<^verbatim>\<open>h\<close> or \<^verbatim>\<open>H\<close> hours,
  \<^verbatim>\<open>m\<close> minutes, \<^verbatim>\<open>s\<close> seconds, \<^verbatim>\<open>z\<close> milliseconds); the others keep
  the value \<open>u\<close> has. The locale's format (\<open>None\<close>) is not fixed, so it constrains
  nothing.\<close>

definition section_edit :: "string option \<Rightarrow> qtime \<Rightarrow> qtime \<Rightarrow> bool" where
  "section_edit fmt u t =
     (case fmt of
        None \<Rightarrow> True
      | Some f \<Rightarrow>
          (CHR ''h'' \<in> set f \<or> CHR ''H'' \<in> set f \<or> qt_hour t = qt_hour u) \<and>
          (CHR ''m'' \<in> set f \<or> qt_minute t = qt_minute u) \<and>
          (CHR ''s'' \<in> set f \<or> qt_second t = qt_second u) \<and>
          (CHR ''z'' \<in> set f \<or> qt_msec t = qt_msec u))"

text \<open>\<^verbatim>\<open>QDateTimeEdit.setMaximumTime(t)\<close> does nothing when \<open>t\<close> is not valid.\<close>

definition set_maximum_time :: "qtime \<Rightarrow> window \<Rightarrow> window" where
  "set_maximum_time t s = (if qtime_valid t then s\<lparr>edit_max := t\<rparr> else s)"

text \<open>\<^verbatim>\<open>self.ding.play()\<close>: reading \<^verbatim>\<open>self.ding\<close> raises when no player was assigned.\<close>

definition ding_play :: "window stmt" where
  "ding_play s = (if ding s then Normal (s\<lparr>plays := Suc (plays s)\<rparr>) else Raised AttributeError s)"

declare set_lbl_text_def [widget_simps] set_btn_text_def [widget_simps]
  set_edit_disabled_def [widget_simps] timer_start_def [widget_simps] timer_stop_def [widget_simps]
  win_show_def [widget_simps] win_hide_def [widget_simps] tray_hide_def [widget_simps]
  tray_set_visible_def [widget_simps]

subsection \<open>Construction: \<^verbatim>\<open>Window.__init__\<close>\<close>

text \<open>
  The widgets as their constructors leave them: an inactive \<^verbatim>\<open>QTimer\<close> (interval 0),
  a \<^verbatim>\<open>QTimeEdit\<close> showing 00:00 whose range is the whole day and whose format is
  the locale's, an unchecked button that is not checkable, a label with the default
  font and alignment, a hidden tray icon, and a hidden, untitled main window with the
  default top-level geometry of 640 by 480 at the origin.
\<close>

definition qt_defaults :: window where
  "qt_defaults =
     \<lparr>time = None, counter = None, old_count = None, timer_lbl = '''',
      edit_time = QTime 0 0 0 0, edit_max = QTime 23 59 59 999, edit_enabled = True,
      btn_checked = False, btn_text = '''', timer_active = False, timer_interval = 0,
      ding = False, plays = 0, visible = False, tray_visible = False, central = [],
      tray_icon = None, title = '''', geometry = Rect 0 0 640 480, fixed_size = None,
      lbl_font = None, lbl_align = AlignLeftVCenter, edit_format = None, btn_checkable = False\<rparr>"

text \<open>\<^verbatim>\<open>setUpMainWindow\<close>, its calls in order: title, geometry, fixed size; the
  label reading 00:00 with a 30 point font, centred; the edit's maximum set to
  \<^verbatim>\<open>QTime(0, 61, 61, 0)\<close> and its format to \<^verbatim>\<open>mm:ss\<close>; the button reading
  start, made checkable. The new \<^verbatim>\<open>QTimer\<close> is the default one of \<open>qt_defaults\<close>;
  the signal connections are in theory \<open>App\<close>.\<close>

definition setUpMainWindow :: "window \<Rightarrow> window" where
  "setUpMainWindow s =
     set_checkable True (set_btn_text ''start''
       (set_display_format ''mm:ss'' (set_maximum_time (QTime 0 61 61 0)
         (set_lbl_alignment AlignCenter (set_lbl_font '''' 30 (set_lbl_text ''00:00''
           (set_fixed_size 150 200 (set_geometry 960 540 0 0 (set_window_title ''Timer'' s)))))))))"

text \<open>\<^verbatim>\<open>setLayout\<close>: a \<^verbatim>\<open>QVBoxLayout\<close> holding the label, the edit and the
  button, in that order, becomes the window's central widget.\<close>

definition setLayout :: "window \<Rightarrow> window" where
  "setLayout s = s\<lparr>central := [Timer_lbl, Edit_time, Start_stop_btn]\<rparr>"

text \<open>\<^verbatim>\<open>systemTray\<close>: a new \<^verbatim>\<open>QSystemTrayIcon\<close> with the icon file; it is not
  shown (\<^verbatim>\<open>setVisible\<close> is never called here). Its menu and connections are
  theory \<open>App\<close>.\<close>

definition systemTray :: "window \<Rightarrow> window" where
  "systemTray s = s\<lparr>tray_icon := Some ''sources/icon.png'', tray_visible := False\<rparr>"

text \<open>\<^verbatim>\<open>initializeUI\<close>: set up, lay out, build the tray, then \<^verbatim>\<open>self.show()\<close>.\<close>

definition initializeUI :: "window \<Rightarrow> window" where
  "initializeUI s = win_show (systemTray (setLayout (setUpMainWindow s)))"

definition window_init :: window where
  "window_init = initializeUI qt_defaults"

lemmas presentation_defs = set_window_title_def set_geometry_def set_fixed_size_def set_lbl_font_def
  set_lbl_alignment_def set_display_format_def set_checkable_def

subsection \<open>Basic facts\<close>

lemma ding_play_ding [simp]: "ding s \<Longrightarrow> ding_play s = Normal (s\<lparr>plays := Suc (plays s)\<rparr>)"
  by (simp add: ding_play_def)

text \<open>Positional notation: a smaller leading digit outweighs any trailing part.\<close>

lemma mixed_radix_less:
  fixes a b x :: nat
  assumes "a < b" "x < k"
  shows "a * k + x < b * k"
proof -
  have "a * k + x < (a + 1) * k" using assms(2) by simp
  also have "\<dots> \<le> b * k" using assms(1) by (intro mult_le_mono1) simp
  finally show ?thesis .
qed

lemma mixed_radix_le:
  fixes a b x y :: nat
  assumes "x < k" "y < k"
  shows "a * k + x \<le> b * k + y \<longleftrightarrow> a < b \<or> a = b \<and> x \<le> y"
proof (cases a b rule: linorder_cases)
  case less
  with mixed_radix_less [OF less assms(1)] show ?thesis by simp
next
  case greater
  with mixed_radix_less [OF greater assms(2)] show ?thesis by simp
qed simp

lemma qtime_msecs_radix:
  "qtime_msecs t = qt_hour t * 3600000 + (qt_minute t * 60000 + (qt_second t * 1000 + qt_msec t))"
  by (simp add: qtime_msecs_def algebra_simps)

lemma qtime_le_msecs:
  assumes "qtime_valid t" "qtime_valid u"
  shows "qtime_le t u \<longleftrightarrow> qtime_msecs t \<le> qtime_msecs u"
proof -
  have s: "qt_second t * 1000 + qt_msec t < 60000" "qt_second u * 1000 + qt_msec u < 60000"
    and m: "qt_minute t * 60000 + (qt_second t * 1000 + qt_msec t) < 3600000"
      "qt_minute u * 60000 + (qt_second u * 1000 + qt_msec u) < 3600000"
    using assms by (simp_all add: qtime_valid_def)
  have "qt_msec t < 1000" "qt_msec u < 1000" using assms by (simp_all add: qtime_valid_def)
  with s m show ?thesis
    by (simp add: qtime_le_def qtime_msecs_radix mixed_radix_le)
qed

text \<open>With the format \<^verbatim>\<open>mm:ss\<close> an edit changes minutes and seconds only.\<close>

lemma section_edit_mmss [simp]:
  "section_edit (Some ''mm:ss'') u t \<longleftrightarrow> qt_hour t = qt_hour u \<and> qt_msec t = qt_msec u"
  by (simp add: section_edit_def)

text \<open>\<^verbatim>\<open>toggle()\<close> as an update of the checked state alone, so that every other
  attribute reads through it.\<close>

lemma btn_toggle_upd [simp, widget_simps]:
  "btn_toggle s = s\<lparr>btn_checked := (if btn_checkable s then \<not> btn_checked s else btn_checked s)\<rparr>"
  by (simp add: btn_toggle_def)

lemma qtime_61_invalid: "\<not> qtime_valid (QTime 0 61 61 0)"
  by (simp add: qtime_valid_def)

lemma window_init_simps:
  "time window_init = None" "counter window_init = None" "old_count window_init = None"
  "timer_lbl window_init = ''00:00''" "edit_time window_init = QTime 0 0 0 0"
  "edit_max window_init = QTime 23 59 59 999" "edit_enabled window_init"
  "\<not> btn_checked window_init" "btn_text window_init = ''start''"
  "\<not> timer_active window_init" "timer_interval window_init = 0"
  "\<not> ding window_init" "plays window_init = 0"
  "visible window_init" "\<not> tray_visible window_init"
  "central window_init = [Timer_lbl, Edit_time, Start_stop_btn]"
  "tray_icon window_init = Some ''sources/icon.png''"
  "edit_format window_init = Some ''mm:ss''" "btn_checkable window_init"
  by (simp_all add: window_init_def initializeUI_def setUpMainWindow_def qt_defaults_def
      setLayout_def systemTray_def presentation_defs
      set_maximum_time_def qtime_61_invalid widget_simps)


end
