(* ===== verification/Controller.thy ===== *)
theory Controller
  imports Window
begin

text \<open>
  The countdown controller: the three slots of \<^verbatim>\<open>Window\<close> that hold the timer's
  logic (\<^verbatim>\<open>editTimeFunc\<close>, \<^verbatim>\<open>timerFunc\<close>, \<^verbatim>\<open>startStop\<close>) and the helper
  \<^verbatim>\<open>sound\<close>. \<^verbatim>\<open>timerFunc\<close> is modelled statement by statement with the
  combinators of theory \<open>Prelude\<close>, so that its \<^verbatim>\<open>try\<close>/\<^verbatim>\<open>except
  AttributeError\<close> runs the handler on the state the body had reached. The lemmas give
  the result of \<^verbatim>\<open>timerFunc\<close> on each of its branches.
\<close>

subsection \<open>\<^verbatim>\<open>editTimeFunc\<close>\<close>

text \<open>\<^verbatim>\<open>self.time.minute() * 60 + self.time.second()\<close>\<close>

definition qtime_count :: "qtime \<Rightarrow> int" where
  "qtime_count t = int (qt_minute t * 60 + qt_second t)"

definition editTimeFunc :: "qtime \<Rightarrow> window \<Rightarrow> window" where
  "editTimeFunc t s =
     (let s1 = s\<lparr>time := Some t\<rparr>;
          s2 = s1\<lparr>counter := Some (qtime_count t)\<rparr>;
          s3 = s2\<lparr>old_count := counter s2\<rparr>
      in set_lbl_text (fmt_mmss (qtime_count t)) s3)"

subsection \<open>\<^verbatim>\<open>sound\<close>\<close>

text \<open>A fresh \<^verbatim>\<open>QMediaPlayer\<close> with its audio output and source is assigned to
  \<^verbatim>\<open>self.ding\<close>; nothing is played.\<close>

definition sound :: "window \<Rightarrow> window" where
  "sound s = s\<lparr>ding := True\<rparr>"

subsection \<open>\<^verbatim>\<open>timerFunc\<close>\<close>

text \<open>\<^verbatim>\<open>self.counter -= 1\<close>\<close>

definition dec_counter :: "window stmt" where
  "dec_counter = py_read counter (\<lambda>c s. Normal (s\<lparr>counter := Some (c - 1)\<rparr>))"

text \<open>\<^verbatim>\<open>self.timer_lbl.setText('%02d:%02d' % (self.counter // 60, self.counter % 60))\<close>\<close>

definition show_counter :: "window stmt" where
  "show_counter = py_read counter (\<lambda>c s. Normal (set_lbl_text (fmt_mmss c) s))"

text \<open>\<^verbatim>\<open>self.counter = self.old_count\<close>\<close>

definition restore_counter :: "window stmt" where
  "restore_counter = py_read old_count (\<lambda>d s. Normal (s\<lparr>counter := Some d\<rparr>))"

text \<open>\<^verbatim>\<open>self.timer_lbl.setText('%02d:%02d' % (self.old_count // 60, self.old_count % 60))\<close>\<close>

definition show_old_count :: "window stmt" where
  "show_old_count = py_read old_count (\<lambda>d s. Normal (set_lbl_text (fmt_mmss d) s))"

text \<open>The statements both completion branches share (lines 97--103 and 105--111).\<close>

definition finish_countdown :: "window stmt list" where
  "finish_countdown =
     [py_do btn_toggle, py_do (set_btn_text ''start''), restore_counter, show_old_count,
      py_do (set_edit_disabled False), ding_play, py_do timer_stop]"

text \<open>\<^verbatim>\<open>if self.counter == 0: ... elif self.counter < 0: ...\<close>; the first branch
  also shows the window and hides the tray icon.\<close>

definition counter_check :: "window stmt" where
  "counter_check = py_read counter (\<lambda>c.
     if c = 0 then py_block ([py_do win_show, py_do tray_hide] @ finish_countdown)
     else if c < 0 then py_block finish_countdown
     else py_block [])"

definition timer_body :: "window stmt" where
  "timer_body = py_block [dec_counter, show_counter, counter_check]"

text \<open>The \<^verbatim>\<open>except AttributeError\<close> block.\<close>

definition timer_handler :: "window stmt" where
  "timer_handler =
     py_block [py_do btn_toggle, py_do (set_btn_text ''start''), py_do (set_edit_disabled False),
               ding_play, py_do timer_stop]"

definition timerFunc :: "window stmt" where
  "timerFunc s = py_try_attr timer_body timer_handler (sound s)"

subsection \<open>\<^verbatim>\<open>startStop\<close>\<close>

definition startStop :: "bool \<Rightarrow> window \<Rightarrow> window" where
  "startStop checked s =
     (if checked
      then set_edit_disabled True (timer_start 1000 (set_btn_text ''stop'' s))
      else timer_stop (set_edit_disabled False (set_btn_text ''start'' s)))"

lemmas timer_stmt_defs =
  dec_counter_def show_counter_def restore_counter_def show_old_count_def finish_countdown_def
  counter_check_def timer_body_def timer_handler_def

subsection \<open>The branches of \<^verbatim>\<open>timerFunc\<close>\<close>

text \<open>The state every completion leaves behind: button unchecked and reading start,
  the count back at the configured value \<open>d\<close>, the edit enabled, the alert played
  once, the timer stopped.\<close>

definition completed_state :: "int \<Rightarrow> window \<Rightarrow> window" where
  "completed_state d s =
     (btn_toggle s)\<lparr>btn_text := ''start'', counter := Some d,
       timer_lbl := fmt_mmss d, edit_enabled := True, plays := Suc (plays s),
       timer_active := False\<rparr>"

lemma timerFunc_unset:
  "counter s = None \<Longrightarrow>
   timerFunc s = Normal ((btn_toggle (sound s))\<lparr>btn_text := ''start'',
     edit_enabled := True, plays := Suc (plays s), timer_active := False\<rparr>)"
  by (simp add: timerFunc_def timer_stmt_defs sound_def widget_simps)

lemma timerFunc_counting:
  "counter s = Some c \<Longrightarrow> 1 < c \<Longrightarrow>
   timerFunc s = Normal ((sound s)\<lparr>counter := Some (c - 1), timer_lbl := fmt_mmss (c - 1)\<rparr>)"
  by (simp add: timerFunc_def timer_stmt_defs sound_def widget_simps)

lemma timerFunc_zero:
  "counter s = Some 1 \<Longrightarrow> old_count s = Some d \<Longrightarrow>
   timerFunc s = Normal (completed_state d ((sound s)\<lparr>visible := True, tray_visible := False\<rparr>))"
  by (simp add: timerFunc_def timer_stmt_defs sound_def widget_simps completed_state_def)

lemma timerFunc_overrun:
  "counter s = Some c \<Longrightarrow> c < 1 \<Longrightarrow> old_count s = Some d \<Longrightarrow>
   timerFunc s = Normal (completed_state d (sound s))"
  by (simp add: timerFunc_def timer_stmt_defs sound_def widget_simps completed_state_def)

text \<open>The fifth path: a count but no \<^verbatim>\<open>old_count\<close>. Reading \<^verbatim>\<open>self.old_count\<close>
  raises in the middle of a completion branch, after the button was toggled, and the
  handler toggles it back. No reachable state has this shape (theory \<open>App\<close>), but
  the slot still returns.\<close>

lemma timerFunc_lost_old_count:
  "counter s = Some c \<Longrightarrow> c \<le> 1 \<Longrightarrow> old_count s = None \<Longrightarrow>
   \<exists>s'. timerFunc s = Normal s' \<and> \<not> timer_active s' \<and> btn_checked s' = btn_checked s"
  by (cases "c = 1") (auto simp: timerFunc_def timer_stmt_defs sound_def widget_simps py_stmt_simps)

text \<open>C1: \<^verbatim>\<open>timerFunc\<close> never lets an exception escape. The only exception its
  statements can raise is \<^verbatim>\<open>AttributeError\<close>, and the \<^verbatim>\<open>except\<close> block cannot
  raise again because \<^verbatim>\<open>self.sound()\<close> assigns \<^verbatim>\<open>self.ding\<close> before the
  \<^verbatim>\<open>try\<close>, whatever attributes were set before.\<close>

theorem timerFunc_never_raises: "\<exists>s'. timerFunc s = Normal s'"
proof (cases "counter s")
  case None
  then show ?thesis by (simp add: timerFunc_unset)
next
  case (Some c)
  show ?thesis
  proof (cases "1 < c")
    case True
    with Some show ?thesis by (simp add: timerFunc_counting)
  next
    case False
    show ?thesis
    proof (cases "old_count s")
      case None
      with Some False show ?thesis using timerFunc_lost_old_count by force
    next
      case (Some d)
      with \<open>counter s = Some c\<close> False show ?thesis
        by (cases "c = 1") (simp_all add: timerFunc_zero timerFunc_overrun)
    qed
  qed
qed

end
