(* ===== verification/Tray.thy ===== *)
theory Tray
  imports Window
begin

text \<open>
  The tray side of \<^verbatim>\<open>src/timer.py\<close>: \<^verbatim>\<open>closeEvent\<close> turns a close request into
  "hide the window, show the tray icon" and ignores the event, so that Qt neither
  closes the window nor ends the process, and the countdown goes on; the tray menu's Show action (\<^verbatim>\<open>systemTray\<close>, connected to
  \<^verbatim>\<open>self.show\<close> and then \<^verbatim>\<open>self.tray.hide\<close>) reverses it. The Exit action calls
  \<^verbatim>\<open>sys.exit\<close>, which the dispatch of theory \<open>App\<close> models as the end of the
  process. Neither slot touches the countdown's attributes.
\<close>

text \<open>The \<^verbatim>\<open>QCloseEvent\<close> handed to \<^verbatim>\<open>closeEvent\<close>: Qt delivers it accepted;
  \<^verbatim>\<open>event.ignore()\<close> clears the flag. What Qt does with the flag after the handler
  returns is the dispatch of theory \<open>App\<close>.\<close>

datatype close_event = QCloseEvent (ce_accepted: bool)

definition ce_ignore :: "close_event \<Rightarrow> close_event" where
  "ce_ignore ev = QCloseEvent False"

text \<open>\<^verbatim>\<open>self.tray.setVisible(True); event.ignore(); self.hide()\<close>: the window and the
  event as the handler leaves them.\<close>

definition closeEvent :: "window \<Rightarrow> close_event \<Rightarrow> window \<times> close_event" where
  "closeEvent s ev =
     (let s1 = tray_set_visible True s; ev1 = ce_ignore ev in (win_hide s1, ev1))"

abbreviation closed_window :: "window \<Rightarrow> window" where
  "closed_window s \<equiv> fst (closeEvent s (QCloseEvent True))"

text \<open>The two slots connected to \<^verbatim>\<open>show_action.triggered\<close>, in connection order.\<close>

definition show_action :: "window \<Rightarrow> window" where
  "show_action s = tray_hide (win_show s)"

text \<open>What the tray slots leave unchanged: everything but the two visibility flags.\<close>

definition countdown_view :: "window \<Rightarrow> int option \<times> int option \<times> qtime option \<times> bool \<times> bool \<times> nat \<times> string" where
  "countdown_view s = (counter s, old_count s, time s, timer_active s, btn_checked s, plays s, timer_lbl s)"

lemma closeEvent_result [simp]:
  "closeEvent s ev = (s\<lparr>tray_visible := True, visible := False\<rparr>, QCloseEvent False)"
  by (simp add: closeEvent_def ce_ignore_def widget_simps)

lemma closeEvent_view [simp]: "countdown_view (closed_window s) = countdown_view s"
  by (simp add: countdown_view_def)

lemma show_action_view [simp]: "countdown_view (show_action s) = countdown_view s"
  by (simp add: show_action_def countdown_view_def widget_simps)

lemma closeEvent_visibility: "\<not> visible (closed_window s) \<and> tray_visible (closed_window s)"
  by simp

lemma show_action_visibility: "visible (show_action s) \<and> \<not> tray_visible (show_action s)"
  by (simp add: show_action_def widget_simps)

end
