(* ===== verification/App.thy ===== *)
theory App
  imports Controller Tray
begin

text \<open>
  The event loop. \<^verbatim>\<open>app.exec()\<close> delivers one event at a time on the single GUI
  thread, and the connections made in \<^verbatim>\<open>setUpMainWindow\<close> and \<^verbatim>\<open>systemTray\<close>
  route each event to one slot. \<open>enabled\<close> says which events Qt can deliver in a state:
  user input reaches the edit and the button only while the window is visible; a disabled \<^verbatim>\<open>QTimeEdit\<close> takes no input and emits \<^verbatim>\<open>timeChanged\<close> only for a
  new valid value within its range (\<open>qtime_le\<close>, Qt's order on valid times) that
  differs from the current one only in the sections its display format shows
  (\<open>section_edit\<close>); a stopped \<^verbatim>\<open>QTimer\<close> emits no
  \<^verbatim>\<open>timeout\<close>; the close button belongs to the visible window, the tray menu to
  the visible tray icon. \<open>dispatch\<close> delivers the event through the connections the
  constructor makes (\<open>dispatch_simps\<close> lists the slot each event reaches). PySide prints an exception that
  escapes a slot and returns to the loop with the state the slot had reached, which is
  \<open>outcome_state\<close>. \<^verbatim>\<open>sys.exit\<close> from the tray's Exit action ends the process.
  \<open>reachable\<close> is the set of states the program can be in; \<open>win_inv\<close> holds in all of
  them, proved by one preservation lemma per event.
\<close>

datatype event = EditTime qtime | Click | Tick | CloseWindow | TrayShow | TrayExit

datatype app = Alive window | Exited

definition enabled :: "window \<Rightarrow> event \<Rightarrow> bool" where
  "enabled s e = (case e of
      EditTime t \<Rightarrow> visible s \<and> edit_enabled s \<and> qtime_valid t
                     \<and> section_edit (edit_format s) (edit_time s) t
                     \<and> qtime_le t (edit_max s) \<and> t \<noteq> edit_time s
    | Click \<Rightarrow> visible s
    | Tick \<Rightarrow> timer_active s
    | CloseWindow \<Rightarrow> visible s
    | TrayShow \<Rightarrow> tray_visible s
    | TrayExit \<Rightarrow> tray_visible s)"

subsection \<open>The signal wiring\<close>

text \<open>
  \<^verbatim>\<open>setUpMainWindow\<close> (lines 76--78) and \<^verbatim>\<open>systemTray\<close> (lines 41--43) call
  \<^verbatim>\<open>connect\<close> six times; each call appends one (source, slot) pair to Qt's
  connection list, \<^verbatim>\<open>initializeUI\<close> running \<^verbatim>\<open>setUpMainWindow\<close> first.
  Emitting a signal calls the slots connected to its source in connection order, each
  with the signal's arguments. PySide passes a slot only as many arguments as it takes,
  so \<^verbatim>\<open>self.show\<close> and \<^verbatim>\<open>self.tray.hide\<close> ignore the \<^verbatim>\<open>checked\<close> flag of
  \<^verbatim>\<open>triggered\<close>; a slot that needs an argument the signal does not carry raises
  \<^verbatim>\<open>TypeError\<close> before its body runs, which PySide prints. \<^verbatim>\<open>sys.exit\<close> ends
  the process, so no slot runs after it.
\<close>

datatype source = EditTimeChanged | TimerTimeout | BtnClicked | ShowTriggered | QuitTriggered

datatype sigarg = NoArg | TimeArg qtime | BoolArg bool

datatype slot = Slot_editTimeFunc | Slot_timerFunc | Slot_startStop | Slot_show | Slot_tray_hide
  | Slot_sys_exit

type_synonym connection = "source \<times> slot"

definition setUpMainWindow_connections :: "connection list" where
  "setUpMainWindow_connections =
     [(EditTimeChanged, Slot_editTimeFunc), (TimerTimeout, Slot_timerFunc), (BtnClicked, Slot_startStop)]"

definition systemTray_connections :: "connection list" where
  "systemTray_connections =
     [(QuitTriggered, Slot_sys_exit), (ShowTriggered, Slot_show), (ShowTriggered, Slot_tray_hide)]"

definition connections :: "connection list" where
  "connections = setUpMainWindow_connections @ systemTray_connections"

text \<open>\<^verbatim>\<open>tray_menu.addAction(show_action)\<close>, then \<^verbatim>\<open>addAction(quit_action)\<close>: the
  menu's entries by label, and the entry a user picks by its label.\<close>

definition tray_menu :: "(string \<times> source) list" where
  "tray_menu = [(''Show'', ShowTriggered), (''Exit'', QuitTriggered)]"

definition menu_source :: "string \<Rightarrow> source option" where
  "menu_source label = map_of tray_menu label"

fun call_slot :: "slot \<Rightarrow> sigarg \<Rightarrow> window \<Rightarrow> app" where
  "call_slot Slot_editTimeFunc (TimeArg t) s = Alive (editTimeFunc t s)"
| "call_slot Slot_timerFunc NoArg s = Alive (outcome_state (timerFunc s))"
| "call_slot Slot_startStop (BoolArg b) s = Alive (startStop b s)"
| "call_slot Slot_show a s = Alive (win_show s)"
| "call_slot Slot_tray_hide a s = Alive (tray_hide s)"
| "call_slot Slot_sys_exit a s = Exited"
| "call_slot sl a s = Alive s"

fun emit :: "connection list \<Rightarrow> source \<Rightarrow> sigarg \<Rightarrow> app \<Rightarrow> app" where
  "emit [] src a st = st"
| "emit ((src', sl) # cs) src a Exited = Exited"
| "emit ((src', sl) # cs) src a (Alive s) =
     (if src' = src then emit cs src a (call_slot sl a s) else emit cs src a (Alive s))"

text \<open>Qt's side of a user input: the widget changes (the edit takes the new value; a
  click on the checkable button flips it) and the signal is emitted with its arguments.
  The close button is not a signal but the overridden \<^verbatim>\<open>closeEvent\<close>.\<close>

fun qt_input :: "window \<Rightarrow> event \<Rightarrow> (window \<times> source \<times> sigarg) option" where
  "qt_input s (EditTime t) = Some (s\<lparr>edit_time := t\<rparr>, EditTimeChanged, TimeArg t)"
| "qt_input s Click = Some (btn_toggle s, BtnClicked, BoolArg (btn_checked (btn_toggle s)))"
| "qt_input s Tick = Some (s, TimerTimeout, NoArg)"
| "qt_input s CloseWindow = None"
| "qt_input s TrayShow = map_option (\<lambda>src. (s, src, BoolArg False)) (menu_source ''Show'')"
| "qt_input s TrayExit = map_option (\<lambda>src. (s, src, BoolArg False)) (menu_source ''Exit'')"

text \<open>One event delivered. A close request goes to \<^verbatim>\<open>closeEvent\<close> with an accepted
  \<^verbatim>\<open>QCloseEvent\<close>; if the handler leaves it accepted, Qt closes the main window,
  the application's last, and with \<^verbatim>\<open>quitOnLastWindowClosed\<close> the process ends.
  Any other input is emitted through the connections.\<close>

definition dispatch :: "window \<Rightarrow> event \<Rightarrow> app" where
  "dispatch s e =
     (if e = CloseWindow
      then (case closeEvent s (QCloseEvent True) of (s', ev) \<Rightarrow> if ce_accepted ev then Exited else Alive s')
      else (case qt_input s e of
              None \<Rightarrow> Alive s
            | Some (s', src, a) \<Rightarrow> emit connections src a (Alive s')))"

fun app_step :: "app \<Rightarrow> event \<Rightarrow> app option" where
  "app_step (Alive s) e = (if enabled s e then Some (dispatch s e) else None)"
| "app_step Exited e = None"

text \<open>A run of events; \<open>None\<close> when some event cannot be delivered where it occurs.\<close>

fun run :: "app \<Rightarrow> event list \<Rightarrow> app option" where
  "run a [] = Some a"
| "run a (e # es) = (case app_step a e of None \<Rightarrow> None | Some a' \<Rightarrow> run a' es)"

inductive reachable :: "app \<Rightarrow> bool" where
  start: "reachable (Alive window_init)"
| step: "reachable a \<Longrightarrow> app_step a e = Some a' \<Longrightarrow> reachable a'"

fun_cases app_step_AliveE: "app_step (Alive s) e = Some a'"

subsection \<open>The invariant\<close>

text \<open>The button, the timer and the edit agree: checked exactly while the timer runs,
  the text names the next action, input is possible only while stopped.\<close>

definition controls_inv :: "window \<Rightarrow> bool" where
  "controls_inv s \<longleftrightarrow>
     btn_checkable s \<and> btn_checked s = timer_active s \<and> edit_enabled s = (\<not> timer_active s)
     \<and> btn_text s = (if timer_active s then ''stop'' else ''start'')
     \<and> (timer_active s \<longrightarrow> timer_interval s = 1000)"

text \<open>Exactly one of the window and the tray icon is visible.\<close>

definition tray_inv :: "window \<Rightarrow> bool" where
  "tray_inv s \<longleftrightarrow> visible s = (\<not> tray_visible s)"

text \<open>The count: unset until the first edit; afterwards \<^verbatim>\<open>old_count\<close> is the
  edited time in seconds, \<^verbatim>\<open>counter\<close> lies between 1 and it (0 only when it is 0),
  and the label shows \<^verbatim>\<open>counter\<close>.\<close>

definition count_inv :: "window \<Rightarrow> bool" where
  "count_inv s \<longleftrightarrow>
     edit_max s = QTime 23 59 59 999 \<and> edit_format s = Some ''mm:ss'' \<and>
     qt_hour (edit_time s) = 0 \<and> qt_msec (edit_time s) = 0 \<and>
     (case time s of
        None \<Rightarrow> counter s = None \<and> old_count s = None \<and> timer_lbl s = ''00:00''
                \<and> edit_time s = QTime 0 0 0 0
      | Some t \<Rightarrow> qtime_valid t \<and> edit_time s = t \<and> old_count s = Some (qtime_count t) \<and>
          (case counter s of
             None \<Rightarrow> False
           | Some c \<Rightarrow> 0 \<le> c \<and> c \<le> qtime_count t \<and> (c = 0 \<longrightarrow> qtime_count t = 0)
                       \<and> timer_lbl s = fmt_mmss c))"

definition win_inv :: "window \<Rightarrow> bool" where
  "win_inv s \<longleftrightarrow> controls_inv s \<and> tray_inv s \<and> count_inv s"

lemmas inv_defs = win_inv_def controls_inv_def tray_inv_def count_inv_def

lemmas wiring_defs = connections_def setUpMainWindow_connections_def systemTray_connections_def
  menu_source_def tray_menu_def

text \<open>The slot each event reaches through the wiring, with its arguments.\<close>

lemma dispatch_simps [simp]:
  "dispatch s (EditTime t) = Alive (editTimeFunc t (s\<lparr>edit_time := t\<rparr>))"
  "dispatch s Click = Alive (startStop (btn_checked (btn_toggle s)) (btn_toggle s))"
  "dispatch s Tick = Alive (outcome_state (timerFunc s))"
  "dispatch s CloseWindow = Alive (closed_window s)"
  "dispatch s TrayShow = Alive (show_action s)"
  "dispatch s TrayExit = Exited"
  by (simp_all add: dispatch_def wiring_defs show_action_def del: btn_toggle_upd)

lemma win_inv_init: "win_inv window_init"
  by (simp add: inv_defs window_init_simps)

lemma qtime_count_nonneg [simp]: "0 \<le> qtime_count t"
  by (simp add: qtime_count_def)

lemma win_inv_edit:
  "win_inv s \<Longrightarrow> enabled s (EditTime t) \<Longrightarrow> win_inv (editTimeFunc t (s\<lparr>edit_time := t\<rparr>))"
  by (auto simp: inv_defs enabled_def editTimeFunc_def widget_simps)

lemma win_inv_click:
  "win_inv s \<Longrightarrow> win_inv (startStop (btn_checked (btn_toggle s)) (btn_toggle s))"
  by (auto simp: inv_defs startStop_def widget_simps split: option.splits)

lemma win_inv_close: "win_inv s \<Longrightarrow> win_inv (closed_window s)"
  by (auto simp: inv_defs split: option.splits)

lemma win_inv_show: "win_inv s \<Longrightarrow> win_inv (show_action s)"
  by (auto simp: inv_defs show_action_def widget_simps split: option.splits)

text \<open>The four shapes of the count in a state satisfying the invariant: the four
  paths of \<^verbatim>\<open>timerFunc\<close> that a reachable state can take.\<close>

lemma win_inv_count_cases:
  assumes "win_inv s"
  obtains (unset) "counter s = None" "old_count s = None" "timer_lbl s = ''00:00''"
  | (counting) c d where "counter s = Some c" "old_count s = Some d" "1 < c" "c \<le> d"
  | (last) d where "counter s = Some 1" "old_count s = Some d" "1 \<le> d"
  | (zero) "counter s = Some 0" "old_count s = Some 0"
proof -
  from assms have ci: "count_inv s" by (simp add: win_inv_def)
  show ?thesis
  proof (cases "time s")
    case None
    with ci show ?thesis using that(1) by (simp add: count_inv_def)
  next
    case (Some t)
    with ci obtain c where c: "counter s = Some c" "old_count s = Some (qtime_count t)"
      "0 \<le> c" "c \<le> qtime_count t" "c = 0 \<longrightarrow> qtime_count t = 0"
      by (auto simp: count_inv_def split: option.splits)
    consider "1 < c" | "c = 1" | "c = 0" using c(3) by linarith
    then show ?thesis
    proof cases
      case 1
      with c show ?thesis using that(2) by blast
    next
      case 2
      with c show ?thesis using that(3) by simp
    next
      case 3
      with c show ?thesis using that(4) by simp
    qed
  qed
qed

lemma win_inv_tick:
  assumes inv: "win_inv s" and act: "timer_active s"
  shows "win_inv (outcome_state (timerFunc s))"
  using inv
proof (cases rule: win_inv_count_cases)
  case unset
  with inv act show ?thesis
    by (auto simp: timerFunc_unset inv_defs sound_def split: option.splits)
next
  case (counting c d)
  with inv act show ?thesis
    by (auto simp: timerFunc_counting inv_defs sound_def split: option.splits)
next
  case (last d)
  with inv act show ?thesis
    by (auto simp: timerFunc_zero inv_defs sound_def completed_state_def split: option.splits)
next
  case zero
  with inv act show ?thesis
    by (auto simp: timerFunc_overrun inv_defs sound_def completed_state_def split: option.splits)
qed

lemma win_inv_step:
  assumes "win_inv s" and "app_step (Alive s) e = Some (Alive s')"
  shows "win_inv s'"
proof -
  from assms(2) have en: "enabled s e" and d: "dispatch s e = Alive s'"
    by (auto split: if_splits)
  show ?thesis
  proof (cases e)
    case (EditTime t)
    with assms(1) en d show ?thesis by (auto intro: win_inv_edit)
  next
    case Click
    with d have "s' = startStop (btn_checked (btn_toggle s)) (btn_toggle s)"
      by (simp del: btn_toggle_upd)
    with win_inv_click [OF assms(1)] show ?thesis by (simp del: btn_toggle_upd)
  next
    case Tick
    with assms(1) en d show ?thesis by (auto simp: enabled_def intro: win_inv_tick)
  next
    case CloseWindow
    with d win_inv_close [OF assms(1)] show ?thesis by simp
  next
    case TrayShow
    with assms(1) d show ?thesis by (auto intro: win_inv_show)
  next
    case TrayExit
    with d show ?thesis by simp
  qed
qed

lemma reachable_app_inv: "reachable a \<Longrightarrow> (case a of Alive s \<Rightarrow> win_inv s | Exited \<Rightarrow> True)"
proof (induction rule: reachable.induct)
  case start
  then show ?case by (simp add: win_inv_init)
next
  case (step a e a')
  show ?case
  proof (cases a)
    case (Alive s)
    with step.IH have inv: "win_inv s" by simp
    show ?thesis
    proof (cases a')
      case (Alive s')
      with \<open>a = Alive s\<close> step.hyps(2) inv show ?thesis by (auto intro: win_inv_step)
    next
      case Exited
      then show ?thesis by simp
    qed
  next
    case Exited
    with step.hyps(2) show ?thesis by simp
  qed
qed

subsection \<open>Runs\<close>

lemma run_append:
  "run a (es @ fs) = (case run a es of None \<Rightarrow> None | Some b \<Rightarrow> run b fs)"
  by (induction a es rule: run.induct) (auto split: option.splits)

lemma run_reachable: "reachable a \<Longrightarrow> run a es = Some b \<Longrightarrow> reachable b"
proof (induction es arbitrary: a)
  case Nil
  then show ?case by simp
next
  case (Cons e es)
  then obtain a' where "app_step a e = Some a'" "run a' es = Some b"
    by (auto split: option.splits)
  with Cons show ?case by (blast intro: reachable.step)
qed

lemma run_Exited: "run Exited (e # es) = None"
  by simp

text \<open>C2: every state the program can reach satisfies the window invariant: the
  button, the timer and the edit agree, exactly one of window and tray icon is visible,
  and the label shows a count that lies between 0 and the configured duration.\<close>

theorem reachable_win_inv: "reachable (Alive s) \<Longrightarrow> win_inv s"
  using reachable_app_inv by fastforce

theorem reachable_win_inv_witness: "reachable (Alive window_init) \<and> win_inv window_init"
  using reachable.start reachable_win_inv [OF reachable.start] by simp

end
