(* ===== verification/Countdown.thy ===== *)
theory Countdown
  imports App
begin

text \<open>
  Liveness of the countdown. Once \<^verbatim>\<open>startStop(True)\<close> has started the
  \<^verbatim>\<open>QTimer\<close> with a count of \<open>k > 0\<close> seconds, the first \<open>k - 1\<close> ticks
  only count down (the timer keeps running, nothing is played) and the \<open>k\<close>-th tick
  completes: the timer stops, the count and the label return to the configured value,
  the alert is played once, the window is brought back and the tray icon hidden. Both
  are stated for the runs of theory \<open>App\<close>, so every tick in them is one that Qt
  can deliver.
\<close>

definition started_5s :: window where
  "started_5s =
     startStop True (btn_toggle (editTimeFunc (QTime 0 0 5 0) (window_init\<lparr>edit_time := QTime 0 0 5 0\<rparr>)))"

lemma started_5s_inv: "win_inv started_5s"
  by (simp add: started_5s_def inv_defs startStop_def editTimeFunc_def widget_simps window_init_simps
      qtime_valid_def qtime_count_def)

lemma tick_counting:
  "timer_active s \<Longrightarrow> counter s = Some c \<Longrightarrow> 1 < c \<Longrightarrow>
   app_step (Alive s) Tick = Some (Alive ((sound s)\<lparr>counter := Some (c - 1), timer_lbl := fmt_mmss (c - 1)\<rparr>))"
  by (simp add: enabled_def timerFunc_counting)

lemma tick_zero:
  "timer_active s \<Longrightarrow> counter s = Some 1 \<Longrightarrow> old_count s = Some d \<Longrightarrow>
   app_step (Alive s) Tick = Some (Alive (completed_state d ((sound s)\<lparr>visible := True, tray_visible := False\<rparr>)))"
  by (simp add: enabled_def timerFunc_zero)

lemma started_5s_simps:
  "timer_active started_5s" "counter started_5s = Some 5" "old_count started_5s = Some 5"
  "btn_checkable started_5s"
  by (simp_all add: started_5s_def startStop_def editTimeFunc_def qtime_count_def widget_simps
      window_init_simps)

lemma run_started_5s: "run (Alive window_init) [EditTime (QTime 0 0 5 0), Click] = Some (Alive started_5s)"
  by (simp add: started_5s_def enabled_def window_init_simps qtime_valid_def qtime_le_def editTimeFunc_def widget_simps)

lemma reachable_started_5s: "reachable (Alive started_5s)"
  using run_reachable [OF reachable.start run_started_5s] .

text \<open>C4: for \<open>j < k\<close>, the first \<open>j\<close> ticks of a countdown started at \<open>k\<close> seconds
  leave the timer running with \<open>k - j\<close> seconds left, the configured duration unchanged
  and no alert played.\<close>

theorem countdown_running:
  assumes "timer_active s" "counter s = Some (int k)" "j < k"
  shows "\<exists>s'. run (Alive s) (replicate j Tick) = Some (Alive s') \<and> timer_active s'
     \<and> counter s' = Some (int (k - j)) \<and> old_count s' = old_count s \<and> plays s' = plays s
     \<and> visible s' = visible s \<and> tray_visible s' = tray_visible s"
  using assms
proof (induction j arbitrary: s k)
  case 0
  then show ?case by simp
next
  case (Suc j)
  let ?s1 = "(sound s)\<lparr>counter := Some (int k - 1), timer_lbl := fmt_mmss (int k - 1)\<rparr>"
  from Suc.prems have step: "app_step (Alive s) Tick = Some (Alive ?s1)"
    by (intro tick_counting) auto
  from Suc.prems have "counter ?s1 = Some (int (k - 1))" "j < k - 1" by auto
  with Suc.prems Suc.IH [of ?s1 "k - 1"] obtain s' where
    "run (Alive ?s1) (replicate j Tick) = Some (Alive s')" "timer_active s'"
    "counter s' = Some (int (k - 1 - j))" "old_count s' = old_count s" "plays s' = plays s"
    "visible s' = visible s" "tray_visible s' = tray_visible s"
    by (auto simp: sound_def)
  with step show ?case by auto
qed

theorem countdown_running_witness:
  "timer_active started_5s \<and> counter started_5s = Some (int 5) \<and> (3::nat) < 5 \<and>
   (\<exists>s'. run (Alive started_5s) (replicate 3 Tick) = Some (Alive s') \<and> timer_active s'
     \<and> counter s' = Some (int (5 - 3)) \<and> old_count s' = old_count started_5s
     \<and> plays s' = plays started_5s \<and> visible s' = visible started_5s
     \<and> tray_visible s' = tray_visible started_5s)"
  using countdown_running [of started_5s 5 3] by (simp add: started_5s_simps)

text \<open>C3: a countdown started at \<open>k > 0\<close> seconds completes on its \<open>k\<close>-th tick:
  the timer stops, the count and the label are reset to the configured duration, the
  alert is played exactly once, the window is shown and the tray icon hidden, and the
  checkable button reads start again with the edit enabled.\<close>

theorem countdown_completes:
  assumes "timer_active s" "counter s = Some (int k)" "old_count s = Some d" "0 < k"
    "btn_checkable s"
  shows "\<exists>s'. run (Alive s) (replicate k Tick) = Some (Alive s')
     \<and> \<not> timer_active s' \<and> counter s' = Some d \<and> timer_lbl s' = fmt_mmss d
     \<and> plays s' = Suc (plays s) \<and> visible s' \<and> \<not> tray_visible s'
     \<and> btn_text s' = ''start'' \<and> edit_enabled s' \<and> btn_checked s' = (\<not> btn_checked s)"
  using assms
proof (induction k arbitrary: s)
  case 0
  then show ?case by simp
next
  case (Suc k)
  show ?case
  proof (cases "k = 0")
    case True
    with Suc.prems have "counter s = Some 1" by simp
    with Suc.prems have "app_step (Alive s) Tick =
        Some (Alive (completed_state d ((sound s)\<lparr>visible := True, tray_visible := False\<rparr>)))"
      by (intro tick_zero) simp_all
    with True Suc.prems(5) show ?thesis
      by (simp add: completed_state_def sound_def del: app_step.simps)
  next
    case False
    let ?s1 = "(sound s)\<lparr>counter := Some (int (Suc k) - 1), timer_lbl := fmt_mmss (int (Suc k) - 1)\<rparr>"
    from Suc.prems False have step: "app_step (Alive s) Tick = Some (Alive ?s1)"
      by (intro tick_counting) auto
    from Suc.prems False Suc.IH [of ?s1] obtain s' where
      "run (Alive ?s1) (replicate k Tick) = Some (Alive s')"
      "\<not> timer_active s'" "counter s' = Some d" "timer_lbl s' = fmt_mmss d"
      "plays s' = Suc (plays s)" "visible s'" "\<not> tray_visible s'"
      "btn_text s' = ''start''" "edit_enabled s'" "btn_checked s' = (\<not> btn_checked s)"
      by (auto simp: sound_def)
    with step show ?thesis by auto
  qed
qed

theorem countdown_completes_witness:
  "timer_active started_5s \<and> counter started_5s = Some (int 5) \<and> old_count started_5s = Some 5
   \<and> (0::nat) < 5 \<and> btn_checkable started_5s \<and>
   (\<exists>s'. run (Alive started_5s) (replicate 5 Tick) = Some (Alive s')
     \<and> \<not> timer_active s' \<and> counter s' = Some 5 \<and> timer_lbl s' = fmt_mmss 5
     \<and> plays s' = Suc (plays started_5s) \<and> visible s' \<and> \<not> tray_visible s'
     \<and> btn_text s' = ''start'' \<and> edit_enabled s' \<and> btn_checked s' = (\<not> btn_checked started_5s))"
  using countdown_completes [of started_5s 5 5] by (simp add: started_5s_simps)

end
