(* ===== verification/ControllerSpec.thy ===== *)
theory ControllerSpec
  imports Countdown
begin

text \<open>
  The Countdown Controller of the design (spec.md, section 4.1) as an abstract state with operations,
  and the proof that the program implements it. The abstract state holds the
  configured duration, the remaining seconds (both unset until the first edit) and the
  run state; its operations are \<open>set_duration\<close>, \<open>toggle_start_stop\<close> and
  \<open>on_tick\<close>, the last returning the effects it requests (raise the window, play the
  alert). \<open>ctrl_abs\<close> reads the abstract state off a window: duration is
  \<^verbatim>\<open>old_count\<close>, remaining is \<^verbatim>\<open>counter\<close>, the run state is whether the
  \<^verbatim>\<open>QTimer\<close> is active. The refinement lemmas show that each tick of the program is
  \<open>on_tick\<close> with its effects, and that an edit and a click are
  \<open>set_duration\<close> and \<open>toggle_start_stop\<close>; theory \<open>Traces\<close> composes them
  over whole runs.
\<close>

datatype run_state = Stopped | Running

record ctrl =
  duration :: "int option"
  remaining :: "int option"
  ctrl_state :: run_state

datatype effect = RaiseWindow | Alert

definition set_duration :: "nat \<Rightarrow> nat \<Rightarrow> ctrl \<Rightarrow> ctrl" where
  "set_duration m sec c = c\<lparr>duration := Some (int (m * 60 + sec)), remaining := Some (int (m * 60 + sec))\<rparr>"

definition toggle_start_stop :: "bool \<Rightarrow> ctrl \<Rightarrow> ctrl" where
  "toggle_start_stop requested c = c\<lparr>ctrl_state := (if requested then Running else Stopped)\<rparr>"

text \<open>\<open>on_tick\<close>, steps 1 to 5 of the design: no duration gives auto-stop-with-alert;
  otherwise decrement, complete with raise and alert at 0, complete with alert only
  below 0, else just count.\<close>

definition on_tick :: "ctrl \<Rightarrow> ctrl \<times> effect list" where
  "on_tick c = (case (duration c, remaining c) of
       (Some d, Some r) \<Rightarrow>
         if r - 1 = 0 then (c\<lparr>remaining := Some d, ctrl_state := Stopped\<rparr>, [RaiseWindow, Alert])
         else if r - 1 < 0 then (c\<lparr>remaining := Some d, ctrl_state := Stopped\<rparr>, [Alert])
         else (c\<lparr>remaining := Some (r - 1)\<rparr>, [])
     | _ \<Rightarrow> (c\<lparr>ctrl_state := Stopped\<rparr>, [Alert]))"

definition display :: "ctrl \<Rightarrow> string" where
  "display c = (case remaining c of None \<Rightarrow> ''00:00'' | Some r \<Rightarrow> fmt_mmss r)"

definition ctrl_abs :: "window \<Rightarrow> ctrl" where
  "ctrl_abs s = \<lparr>duration = old_count s, remaining = counter s,
                 ctrl_state = (if timer_active s then Running else Stopped)\<rparr>"

subsection \<open>Refinement\<close>

text \<open>The observable effects of a tick: alerts are \<^verbatim>\<open>ding.play()\<close> calls, a raise
  shows the window and hides the tray icon, and without a raise both stay as they were.\<close>

definition effects_match :: "window \<Rightarrow> window \<Rightarrow> effect list \<Rightarrow> bool" where
  "effects_match s s' eff \<longleftrightarrow>
     plays s' = plays s + count_list eff Alert \<and>
     (if RaiseWindow \<in> set eff then visible s' \<and> \<not> tray_visible s'
      else visible s' = visible s \<and> tray_visible s' = tray_visible s)"

lemma tick_abs:
  assumes "win_inv s" "timer_active s"
  shows "ctrl_abs (outcome_state (timerFunc s)) = fst (on_tick (ctrl_abs s))"
  using assms(1)
proof (cases rule: win_inv_count_cases)
  case unset
  then show ?thesis by (simp add: timerFunc_unset ctrl_abs_def on_tick_def sound_def)
next
  case (counting c d)
  with assms(2) show ?thesis by (simp add: timerFunc_counting ctrl_abs_def on_tick_def sound_def)
next
  case (last d)
  then show ?thesis
    by (simp add: timerFunc_zero ctrl_abs_def on_tick_def sound_def completed_state_def)
next
  case zero
  then show ?thesis
    by (simp add: timerFunc_overrun ctrl_abs_def on_tick_def sound_def completed_state_def)
qed

text \<open>The effects of a tick and its label, path by path.\<close>

lemma tick_effects:
  assumes "win_inv s" "timer_active s"
  shows "effects_match s (outcome_state (timerFunc s)) (snd (on_tick (ctrl_abs s))) \<and>
         timer_lbl (outcome_state (timerFunc s)) = display (fst (on_tick (ctrl_abs s)))"
  using assms(1)
proof (cases rule: win_inv_count_cases)
  case unset
  with assms show ?thesis
    by (simp add: timerFunc_unset ctrl_abs_def on_tick_def sound_def effects_match_def display_def)
next
  case (counting c d)
  with assms show ?thesis
    by (simp add: timerFunc_counting ctrl_abs_def on_tick_def sound_def effects_match_def display_def)
next
  case (last d)
  with assms show ?thesis
    by (simp add: timerFunc_zero ctrl_abs_def on_tick_def sound_def effects_match_def display_def
        completed_state_def)
next
  case zero
  with assms show ?thesis
    by (simp add: timerFunc_overrun ctrl_abs_def on_tick_def sound_def effects_match_def display_def
        completed_state_def)
qed

lemma edit_abs:
  assumes "enabled s (EditTime t)"
  shows "ctrl_abs (editTimeFunc t (s\<lparr>edit_time := t\<rparr>)) = set_duration (qt_minute t) (qt_second t) (ctrl_abs s)"
  by (simp add: ctrl_abs_def set_duration_def editTimeFunc_def qtime_count_def widget_simps)

lemma click_abs:
  assumes "controls_inv s"
  shows "ctrl_abs (startStop (btn_checked (btn_toggle s)) (btn_toggle s)) =
         toggle_start_stop (ctrl_state (ctrl_abs s) = Stopped) (ctrl_abs s)"
  using assms by (simp add: ctrl_abs_def toggle_start_stop_def startStop_def widget_simps controls_inv_def)

text \<open>C5: one tick of the program is the design's \<open>on_tick\<close>: the same new
  abstract state, one \<^verbatim>\<open>ding.play()\<close> per requested alert, the window raised exactly
  when the design raises it, and the label showing the new remaining time.\<close>

theorem timerFunc_refines_on_tick:
  assumes "win_inv s" "timer_active s"
  shows "ctrl_abs (outcome_state (timerFunc s)) = fst (on_tick (ctrl_abs s)) \<and>
         effects_match s (outcome_state (timerFunc s)) (snd (on_tick (ctrl_abs s))) \<and>
         timer_lbl (outcome_state (timerFunc s)) = display (fst (on_tick (ctrl_abs s)))"
  using tick_abs [OF assms] tick_effects [OF assms] by simp

theorem timerFunc_refines_on_tick_witness:
  "win_inv started_5s \<and> timer_active started_5s \<and>
   ctrl_abs (outcome_state (timerFunc started_5s)) = fst (on_tick (ctrl_abs started_5s)) \<and>
   effects_match started_5s (outcome_state (timerFunc started_5s)) (snd (on_tick (ctrl_abs started_5s))) \<and>
   timer_lbl (outcome_state (timerFunc started_5s)) = display (fst (on_tick (ctrl_abs started_5s)))"
  using started_5s_inv started_5s_simps(1)
    timerFunc_refines_on_tick [OF started_5s_inv started_5s_simps(1)] by simp

end
