(* ===== verification/Progress.thy ===== *)
theory Progress
  imports Countdown
begin

text \<open>
  Termination and progress of the countdown loop. The program has no loop of its own:
  the repetition is the \<^verbatim>\<open>QTimer\<close> calling \<^verbatim>\<open>timerFunc\<close> once a second until a
  slot calls \<^verbatim>\<open>self.timer.stop()\<close>. \<open>ticks_left\<close> is the number of timeouts still
  to come: none for a stopped timer, the count for a running countdown of \<open>c \<ge> 1\<close>,
  and one when the count is unset or 0 (the \<^verbatim>\<open>except\<close> and the \<open>< 0\<close> branches
  stop the timer at once). Every timeout a reachable state can receive lowers it by
  exactly one, so the timeouts of a run form a well-founded relation, and exactly
  \<open>ticks_left\<close> timeouts stop the timer.
\<close>

definition ticks_left :: "window \<Rightarrow> nat" where
  "ticks_left s =
     (if timer_active s then (case counter s of None \<Rightarrow> 1 | Some c \<Rightarrow> max 1 (nat c)) else 0)"

lemma ticks_left_active: "0 < ticks_left s \<longleftrightarrow> timer_active s"
  by (simp add: ticks_left_def less_max_iff_disj split: option.splits)

lemma ticks_left_tick:
  assumes "win_inv s" "timer_active s"
  shows "ticks_left (outcome_state (timerFunc s)) = ticks_left s - 1"
  using assms(1)
proof (cases rule: win_inv_count_cases)
  case unset
  with assms(2) show ?thesis by (simp add: timerFunc_unset ticks_left_def sound_def)
next
  case (counting c d)
  then have "max 1 (nat (c - 1)) = max 1 (nat c) - 1" by linarith
  with counting assms(2) show ?thesis by (simp add: timerFunc_counting ticks_left_def sound_def)
next
  case (last d)
  with assms(2) show ?thesis by (simp add: timerFunc_zero ticks_left_def sound_def completed_state_def)
next
  case zero
  with assms(2) show ?thesis by (simp add: timerFunc_overrun ticks_left_def sound_def completed_state_def)
qed

lemma tick_step:
  assumes "win_inv s" "timer_active s"
  shows "app_step (Alive s) Tick = Some (Alive (outcome_state (timerFunc s)))"
    and "win_inv (outcome_state (timerFunc s))"
  using assms by (simp_all add: enabled_def win_inv_tick)

lemma reachable_inv: "reachable (Alive s) \<Longrightarrow> win_inv s"
  using reachable_app_inv by fastforce

text \<open>\<open>j \<le> ticks_left s\<close> timeouts can all be delivered and leave \<open>ticks_left s - j\<close>.\<close>

lemma ticks_run:
  assumes "win_inv s" "j \<le> ticks_left s"
  shows "\<exists>s'. run (Alive s) (replicate j Tick) = Some (Alive s') \<and> win_inv s'
           \<and> ticks_left s' = ticks_left s - j"
  using assms
proof (induction j arbitrary: s)
  case 0
  then show ?case by simp
next
  case (Suc j)
  let ?s1 = "outcome_state (timerFunc s)"
  from Suc.prems have act: "timer_active s" using ticks_left_active by fastforce
  with Suc.prems have step: "app_step (Alive s) Tick = Some (Alive ?s1)" and inv1: "win_inv ?s1"
    and left1: "ticks_left ?s1 = ticks_left s - 1"
    using tick_step ticks_left_tick by blast+
  with Suc.prems have "j \<le> ticks_left ?s1" by simp
  with Suc.IH [OF inv1] obtain s' where
    "run (Alive ?s1) (replicate j Tick) = Some (Alive s')" "win_inv s'"
    "ticks_left s' = ticks_left ?s1 - j" by blast
  with step left1 show ?case by simp
qed

lemma tick_rel_measure:
  "{(s', s). reachable (Alive s) \<and> app_step (Alive s) Tick = Some (Alive s')} \<subseteq> measure ticks_left"
proof clarify
  fix s s'
  assume r: "reachable (Alive s)" and st: "app_step (Alive s) Tick = Some (Alive s')"
  from st have act: "timer_active s" by (simp add: enabled_def split: if_splits)
  from r have inv: "win_inv s" by (rule reachable_inv)
  from st act have "s' = outcome_state (timerFunc s)" by (simp add: enabled_def)
  with inv act show "(s', s) \<in> measure ticks_left"
    using ticks_left_tick [OF inv act] ticks_left_active [of s] by simp
qed

text \<open>C16: the countdown loop terminates: from any reachable state, the states that
  successive timeouts lead to form a well-founded relation, so no run delivers
  infinitely many timeouts without another event in between.\<close>

theorem countdown_terminates:
  "wf {(s', s). reachable (Alive s) \<and> app_step (Alive s) Tick = Some (Alive s')}"
  by (rule wf_subset [OF wf_measure tick_rel_measure])

text \<open>C17: from any reachable state the timer stops after exactly \<open>ticks_left\<close>
  timeouts: each earlier timeout is delivered and leaves it running, and the last one
  stops it.\<close>

theorem countdown_stops:
  assumes "reachable (Alive s)"
  shows "(\<forall>j < ticks_left s. \<exists>s'. run (Alive s) (replicate j Tick) = Some (Alive s') \<and> timer_active s')
       \<and> (\<exists>s'. run (Alive s) (replicate (ticks_left s) Tick) = Some (Alive s') \<and> \<not> timer_active s')"
proof -
  from assms have inv: "win_inv s" by (rule reachable_inv)
  have "\<exists>s'. run (Alive s) (replicate j Tick) = Some (Alive s') \<and> timer_active s'"
    if "j < ticks_left s" for j
    using ticks_run [OF inv, of j] that ticks_left_active by fastforce
  moreover obtain s' where "run (Alive s) (replicate (ticks_left s) Tick) = Some (Alive s')"
    "ticks_left s' = 0"
    using ticks_run [OF inv order.refl] by auto
  then have "\<exists>s'. run (Alive s) (replicate (ticks_left s) Tick) = Some (Alive s') \<and> \<not> timer_active s'"
    using ticks_left_active [of s'] by auto
  ultimately show ?thesis by blast
qed

lemma ticks_left_started_5s: "ticks_left started_5s = 5"
  by (simp add: ticks_left_def started_5s_simps)

theorem countdown_stops_witness:
  "reachable (Alive started_5s) \<and>
   (\<exists>s'. run (Alive started_5s) (replicate 4 Tick) = Some (Alive s') \<and> timer_active s')
   \<and> (\<exists>s'. run (Alive started_5s) (replicate 5 Tick) = Some (Alive s') \<and> \<not> timer_active s')"
  using reachable_started_5s countdown_stops [OF reachable_started_5s]
  by (simp add: ticks_left_started_5s)

theorem countdown_terminates_witness:
  "wf {(s', s). reachable (Alive s) \<and> app_step (Alive s) Tick = Some (Alive s')} \<and>
   reachable (Alive started_5s) \<and> app_step (Alive started_5s) Tick \<noteq> None"
  using countdown_terminates reachable_started_5s started_5s_simps(1)
  by (simp add: enabled_def)

end
