(* ===== verification/TrayProtocol.thy ===== *)
theory TrayProtocol
  imports ControllerSpec Progress
begin

text \<open>
  The tray protocol of the design (spec.md, "Tray interaction"): the program is either
  shown in its window or minimised to the tray icon. Closing the window minimises,
  the tray's Show restores, a normal completion of the countdown restores, and the
  user's input (edits, clicks) reaches the program only through the shown window.
  \<open>tray_step\<close> is this protocol as a step relation on the two presentation states;
  \<open>shown_of\<close> reads the presentation state off a window. Every step of the program
  is a step of the protocol, the window can always be brought back with one menu
  action, and the process can always be ended through the tray.
\<close>

datatype shown = InWindow | InTray

definition shown_of :: "window \<Rightarrow> shown" where
  "shown_of s = (if visible s then InWindow else InTray)"

inductive tray_step :: "shown \<Rightarrow> event \<Rightarrow> shown \<Rightarrow> bool" where
  minimise: "tray_step InWindow CloseWindow InTray"
| restore: "tray_step InTray TrayShow InWindow"
| edit: "tray_step InWindow (EditTime t) InWindow"
| click: "tray_step InWindow Click InWindow"
| tick: "tray_step p Tick p"
| tick_raise: "tray_step p Tick InWindow"

inductive_simps tray_step_simps: "tray_step p e p'"

lemma tick_visibility:
  assumes "win_inv s" "timer_active s"
  shows "visible (outcome_state (timerFunc s)) \<or> visible (outcome_state (timerFunc s)) = visible s"
  using tick_effects [OF assms] by (auto simp: effects_match_def split: if_splits)

text \<open>Edits and clicks leave the presentation and the alerts alone.\<close>

lemma editTimeFunc_keeps [simp]:
  "visible (editTimeFunc t s) = visible s" "plays (editTimeFunc t s) = plays s"
  by (simp_all add: editTimeFunc_def widget_simps)

lemma startStop_keeps [simp]:
  "visible (startStop b s) = visible s" "plays (startStop b s) = plays s"
  by (simp_all add: startStop_def widget_simps)

lemma started_5s_visible: "visible started_5s"
  by (simp add: started_5s_def startStop_def editTimeFunc_def widget_simps window_init_simps)

lemma reachable_closed_5s: "reachable (Alive (closed_window started_5s))"
  using reachable.step [OF reachable_started_5s, of CloseWindow] started_5s_visible
  by (simp add: enabled_def)

text \<open>C20: every step of the program is a step of the tray protocol: closing the
  window minimises to the tray, the tray's Show restores the window, edits and clicks
  happen only while the window is shown, and a tick either leaves the presentation as it
  is or restores the window.\<close>

theorem app_step_tray_protocol:
  assumes "reachable (Alive s)" "app_step (Alive s) e = Some (Alive s')"
  shows "tray_step (shown_of s) e (shown_of s')"
proof -
  from assms(1) have inv: "win_inv s" by (rule reachable_inv)
  from assms(2) have en: "enabled s e" and d: "dispatch s e = Alive s'"
    by (auto split: if_splits)
  show ?thesis
  proof (cases e)
    case (EditTime t)
    with en d show ?thesis by (auto simp: enabled_def shown_of_def tray_step_simps)
  next
    case Click
    with en d show ?thesis by (auto simp: enabled_def shown_of_def tray_step_simps widget_simps)
  next
    case Tick
    with en have act: "timer_active s" by (simp add: enabled_def)
    with Tick d tick_visibility [OF inv act] show ?thesis
      by (auto simp: shown_of_def tray_step_simps)
  next
    case CloseWindow
    with en d show ?thesis
      using closeEvent_visibility [of s] by (auto simp: enabled_def shown_of_def tray_step_simps)
  next
    case TrayShow
    with en d inv show ?thesis
      using show_action_visibility [of s]
      by (auto simp: enabled_def shown_of_def tray_step_simps inv_defs)
  next
    case TrayExit
    with d show ?thesis by simp
  qed
qed

theorem app_step_tray_protocol_witness:
  "reachable (Alive (closed_window started_5s)) \<and>
   app_step (Alive (closed_window started_5s)) TrayShow = Some (Alive (show_action (closed_window started_5s))) \<and>
   tray_step (shown_of (closed_window started_5s)) TrayShow (shown_of (show_action (closed_window started_5s)))"
proof -
  have st: "app_step (Alive (closed_window started_5s)) TrayShow = Some (Alive (show_action (closed_window started_5s)))"
    using closeEvent_visibility [of started_5s] by (simp add: enabled_def)
  show ?thesis using reachable_closed_5s st app_step_tray_protocol [OF reachable_closed_5s st] by simp
qed

text \<open>C21: the window can always be brought back: from every reachable state, at most
  one action of the tray menu shows the window again, with the countdown untouched.\<close>

theorem window_recoverable:
  assumes "reachable (Alive s)"
  shows "\<exists>s'. run (Alive s) (if visible s then [] else [TrayShow]) = Some (Alive s') \<and> visible s'
              \<and> countdown_view s' = countdown_view s"
proof (cases "visible s")
  case True
  then show ?thesis by simp
next
  case False
  from assms have "tray_inv s" using reachable_inv by (simp add: win_inv_def)
  with False have "tray_visible s" by (simp add: tray_inv_def)
  with False show ?thesis using show_action_visibility [of s] by (simp add: enabled_def)
qed

theorem window_recoverable_witness:
  "reachable (Alive (closed_window started_5s)) \<and> \<not> visible (closed_window started_5s) \<and>
   (\<exists>s'. run (Alive (closed_window started_5s)) [TrayShow] = Some (Alive s') \<and> visible s'
         \<and> countdown_view s' = countdown_view (closed_window started_5s))"
  using reachable_closed_5s closeEvent_visibility [of started_5s] window_recoverable [OF reachable_closed_5s]
  by simp

text \<open>C22: the process can always be ended: from every reachable state the tray's
  Exit, preceded by closing the window when it is shown, ends it. Closing the window
  alone never does (C12): Exit in the tray menu is the only way out.\<close>

theorem exit_always_possible:
  assumes "reachable (Alive s)"
  shows "run (Alive s) (if visible s then [CloseWindow, TrayExit] else [TrayExit]) = Some Exited"
proof -
  from assms have "tray_inv s" using reachable_inv by (simp add: win_inv_def)
  then show ?thesis using closeEvent_visibility [of s] by (simp add: enabled_def tray_inv_def)
qed

theorem exit_always_possible_witness:
  "reachable (Alive started_5s) \<and> visible started_5s \<and>
   run (Alive started_5s) [CloseWindow, TrayExit] = Some Exited"
  using reachable_started_5s started_5s_visible exit_always_possible [OF reachable_started_5s]
  by simp

end
