(* ===== verification/Traces.thy ===== *)
theory Traces
  imports TrayProtocol
begin

text \<open>
  Refinement at the level of whole runs. The design is the Countdown Controller
  together with the tray protocol: its state is the controller's state and the
  presentation (window shown or minimised to the tray). It reacts to every event of the
  program: edits, clicks and ticks go to the controller, a tick whose effects include
  raising the window shows it, closing minimises, the tray's Show restores, and Exit ends
  the process. \<open>design_run\<close> runs it over a list of events and collects the
  requested effects in order. Any run of the program from a reachable state that keeps
  the process alive ends, read through \<open>ctrl_abs\<close> and \<open>shown_of\<close>, in the state
  the design reaches on the same events, and the program has played the alert exactly
  as often as the design requested it along the way.
\<close>

fun design_exec :: "ctrl \<times> shown \<Rightarrow> event \<Rightarrow> ((ctrl \<times> shown) \<times> effect list) option" where
  "design_exec (c, p) (EditTime t) = Some ((set_duration (qt_minute t) (qt_second t) c, p), [])"
| "design_exec (c, p) Click = Some ((toggle_start_stop (ctrl_state c = Stopped) c, p), [])"
| "design_exec (c, p) Tick =
     (case on_tick c of (c', eff) \<Rightarrow> Some ((c', if RaiseWindow \<in> set eff then InWindow else p), eff))"
| "design_exec (c, p) CloseWindow = Some ((c, InTray), [])"
| "design_exec (c, p) TrayShow = Some ((c, InWindow), [])"
| "design_exec (c, p) TrayExit = None"

fun design_run :: "ctrl \<times> shown \<Rightarrow> event list \<Rightarrow> ((ctrl \<times> shown) \<times> effect list) option" where
  "design_run d [] = Some (d, [])"
| "design_run d (e # es) =
     (case design_exec d e of
        None \<Rightarrow> None
      | Some (d1, eff1) \<Rightarrow>
          (case design_run d1 es of None \<Rightarrow> None | Some (d2, eff2) \<Rightarrow> Some (d2, eff1 @ eff2)))"

subsection \<open>One step\<close>

lemma step_design:
  assumes inv: "win_inv s" and st: "app_step (Alive s) e = Some (Alive s')"
  shows "\<exists>eff. design_exec (ctrl_abs s, shown_of s) e = Some ((ctrl_abs s', shown_of s'), eff)
              \<and> plays s' = plays s + count_list eff Alert"
proof -
  from st have en: "enabled s e" and d: "dispatch s e = Alive s'"
    by (auto split: if_splits)
  from inv have ci: "controls_inv s" by (simp add: win_inv_def)
  show ?thesis
  proof (cases e)
    case (EditTime t)
    with en d show ?thesis
      using edit_abs [of s t] by (auto simp: editTimeFunc_def widget_simps shown_of_def)
  next
    case Click
    with d show ?thesis
      using click_abs [OF ci] by (auto simp: widget_simps shown_of_def)
  next
    case Tick
    with en have act: "timer_active s" by (simp add: enabled_def)
    with Tick d show ?thesis
      using tick_abs [OF inv act] tick_effects [OF inv act]
      by (auto simp: effects_match_def shown_of_def split: prod.splits if_splits)
  next
    case CloseWindow
    with d show ?thesis
      using closeEvent_visibility [of s] by (auto simp: ctrl_abs_def widget_simps shown_of_def)
  next
    case TrayShow
    with d show ?thesis
      using show_action_visibility [of s] by (auto simp: ctrl_abs_def show_action_def widget_simps shown_of_def)
  next
    case TrayExit
    with d show ?thesis by simp
  qed
qed

lemma run_Exited_not_Alive: "run Exited es \<noteq> Some (Alive s)"
  by (cases es) simp_all

subsection \<open>Whole runs\<close>

text \<open>C19: trace refinement: any run of the program from a reachable state that keeps
  the process alive ends, read through \<open>ctrl_abs\<close> and \<open>shown_of\<close>, in the state
  the design (controller and tray protocol) reaches on the same events, and the program
  has called \<^verbatim>\<open>ding.play()\<close> exactly as often as the design requested an alert.\<close>

theorem run_refines_trace:
  assumes "reachable (Alive s)" "run (Alive s) es = Some (Alive s')"
  shows "\<exists>effs. design_run (ctrl_abs s, shown_of s) es = Some ((ctrl_abs s', shown_of s'), effs)
               \<and> plays s' = plays s + count_list effs Alert"
  using assms
proof (induction es arbitrary: s)
  case Nil
  then show ?case by simp
next
  case (Cons e es)
  from Cons.prems(2) obtain a1 where st: "app_step (Alive s) e = Some a1"
    and r: "run a1 es = Some (Alive s')"
    by (auto split: option.splits)
  obtain s1 where a1: "a1 = Alive s1"
    using r run_Exited_not_Alive by (cases a1) auto
  from Cons.prems(1) st a1 have reach1: "reachable (Alive s1)" by (blast intro: reachable.step)
  from Cons.prems(1) have inv: "win_inv s" using reachable_app_inv by fastforce
  from st a1 have st1: "app_step (Alive s) e = Some (Alive s1)" by simp
  from step_design [OF inv st1] obtain eff1 where
    e1: "design_exec (ctrl_abs s, shown_of s) e = Some ((ctrl_abs s1, shown_of s1), eff1)"
    "plays s1 = plays s + count_list eff1 Alert" by blast
  from Cons.IH [OF reach1] r a1 obtain eff2 where
    e2: "design_run (ctrl_abs s1, shown_of s1) es = Some ((ctrl_abs s', shown_of s'), eff2)"
    "plays s' = plays s1 + count_list eff2 Alert" by auto
  from e1 e2 show ?case by (intro exI [of _ "eff1 @ eff2"]) simp
qed

theorem run_refines_trace_witness:
  "reachable (Alive window_init) \<and>
   run (Alive window_init) [EditTime (QTime 0 0 5 0), Click] = Some (Alive started_5s) \<and>
   (\<exists>effs. design_run (ctrl_abs window_init, shown_of window_init) [EditTime (QTime 0 0 5 0), Click]
            = Some ((ctrl_abs started_5s, shown_of started_5s), effs)
          \<and> plays started_5s = plays window_init + count_list effs Alert)"
  using reachable.start run_started_5s run_refines_trace [OF reachable.start run_started_5s]
  by simp


end
