(* ===== verification/Spec2Isabelle.thy ===== *)
theory Spec2Isabelle
  imports Traces Progress TrayProtocol
begin

text \<open>
  \<^bold>\<open>A verified model of the PySide6 countdown timer\<close> (\<^verbatim>\<open>src/timer.py\<close>).

  \<^bold>\<open>The program.\<close> One class, \<^verbatim>\<open>Window\<close>, holds everything. Its constructor
  builds a label, a \<^verbatim>\<open>QTimeEdit\<close> for minutes and seconds, a checkable start/stop
  button, a 1 Hz \<^verbatim>\<open>QTimer\<close> and a tray icon with Show and Exit actions, and connects
  three signals to three slots: \<^verbatim>\<open>timeChanged\<close> to \<^verbatim>\<open>editTimeFunc\<close> (store the
  time as a count of seconds in \<^verbatim>\<open>counter\<close> and \<^verbatim>\<open>old_count\<close>, show it),
  \<^verbatim>\<open>clicked\<close> to \<^verbatim>\<open>startStop\<close> (start or stop the timer, disable or enable the
  edit) and \<^verbatim>\<open>timeout\<close> to \<^verbatim>\<open>timerFunc\<close> (count down; at 0, or below, stop,
  reset the count, play the alert; if no time was ever entered the missing attribute
  raises \<^verbatim>\<open>AttributeError\<close> and the \<^verbatim>\<open>except\<close> block stops the timer and
  plays the alert). \<^verbatim>\<open>closeEvent\<close> hides the window into the tray and ignores
  the close event, so that Qt neither closes the window nor quits. All of it runs on the single GUI thread, one event at a time.

  \<^bold>\<open>The theories.\<close>
  \<^item> \<open>Prelude\<close>: Python statement semantics. A statement ends \<open>Normal\<close> or
    \<open>Raised\<close> with the state it had reached; \<open>py_block\<close> runs a block,
    \<open>py_try_attr\<close> is \<^verbatim>\<open>try/except AttributeError\<close>, \<open>py_read\<close> reads an
    attribute that may not exist. The collections \<open>py_stmt_simps\<close> and
    \<open>widget_simps\<close> carry the evaluation rules.
  \<^item> \<open>PyFormat\<close>: \<^verbatim>\<open>'%02d:%02d' % (c // 60, c % 60)\<close> as \<open>fmt_mmss\<close>, with
    Python's floor division and zero padding, and the reader \<open>parse_mmss\<close>;
    round trips in both directions.
  \<^item> \<open>Window\<close>: \<^verbatim>\<open>QTime\<close> (a datatype with Qt's validity rule and its
    order, \<open>qtime_le\<close>, proved equal on valid times to the order of
    \<^verbatim>\<open>msecsSinceStartOfDay\<close>), the record \<open>window\<close> of the object's attributes and its
    widgets' state, one function per Qt call (the presentation calls of
    \<^verbatim>\<open>setUpMainWindow\<close> included), and the start state \<open>window_init\<close> built as
    \<^verbatim>\<open>__init__\<close> builds it (\<open>setUpMainWindow\<close>, \<open>setLayout\<close>,
    \<open>systemTray\<close>, \<open>initializeUI\<close>). Two of those calls govern behaviour: the
    display format decides which sections of the time an edit can change
    (\<open>section_edit\<close>), and checkability decides whether \<^verbatim>\<open>toggle()\<close> and a
    click flip the button (\<open>btn_toggle\<close>).
  \<^item> \<open>Controller\<close>: \<open>editTimeFunc\<close>, \<open>sound\<close>, \<open>startStop\<close>, and
    \<open>timerFunc\<close> statement by statement (lines 89--118), with one lemma per path
    through it.
  \<^item> \<open>Tray\<close>: \<open>closeEvent\<close> on the window and on the \<^verbatim>\<open>QCloseEvent\<close>
    (\<^verbatim>\<open>event.ignore()\<close> clears its accepted flag), and the tray's Show action.
  \<^item> \<open>App\<close>: the event loop: \<open>event\<close>, \<open>enabled\<close> (which events Qt can
    deliver: no input to the widgets of a hidden window or to a disabled edit, no
    timeout from a stopped timer, no tray menu while the icon is hidden),
    the six \<^verbatim>\<open>connect\<close> calls of \<^verbatim>\<open>setUpMainWindow\<close> and \<^verbatim>\<open>systemTray\<close>
    as a connection list and the tray menu as the list of its actions, \<open>emit\<close> (the
    connected slots in connection order), \<open>dispatch\<close> (one event through the wiring,
    a close request through \<^verbatim>\<open>closeEvent\<close> and its accepted flag), \<open>run\<close> over a
    list of events, \<open>reachable\<close> states, and the invariant \<open>win_inv\<close> with one
    preservation lemma per event.
  \<^item> \<open>Countdown\<close>: liveness of a started countdown.
  \<^item> \<open>Progress\<close>: termination of the timer's loop, by the measure
    \<open>ticks_left\<close>, and the exact number of timeouts that stops it.
  \<^item> \<open>ControllerSpec\<close>: the design's Countdown Controller (spec.md 4.1) as an
    abstract state with its operations, and the refinement of each tick, edit and click.
  \<^item> \<open>Traces\<close>: the whole design (controller and tray protocol) run over a list
    of events with the effects it requests (\<open>design_run\<close>), the refinement of
    whole runs.
  \<^item> \<open>TrayProtocol\<close>: the design's tray interaction as a step relation on the two
    presentation states (window shown, minimised to the tray), refined by every step of
    the program, with recovery of the window and exit through the tray.
  \<^item> this theory: the properties that span components, the design note's collapsed
    \<^verbatim>\<open>timerFunc\<close>, and the behaviour of the widgets' configuration.

  \<^bold>\<open>What is proved.\<close> \<^verbatim>\<open>timerFunc\<close> never lets an exception escape (C1).
  Every reachable state keeps the button, timer and edit consistent, shows exactly one
  of window and tray icon, and labels a count between 0 and the configured duration
  (C2). A countdown of \<open>k > 0\<close> seconds runs \<open>k - 1\<close> ticks and completes on the
  \<open>k\<close>-th (C3, C4). Each tick is the design's \<open>on_tick\<close> with its effects (C5).
  Edits show \<^verbatim>\<open>MM:SS\<close> and read back to the time entered; the label always reads
  back to the count (C6--C9). The design note's single \<open>remaining \<le> 0\<close> branch is
  equivalent to the code (C10). Start then stop restores the stopped state (C11);
  closing the window never stops the countdown or the process, because the handler
  ignores the close event (C12); ticks and edits happen only in the right state (C13,
  C14). Durations are at most 59:59 (C15). The loop of timeouts terminates from every
  reachable state (C16), and exactly \<open>ticks_left\<close> timeouts stop the timer (C17).
  Every reachable label has the shape \<^verbatim>\<open>MM:SS\<close> and every stored \<^verbatim>\<open>QTime\<close>
  is valid (C18). Whole runs refine the design: the final controller state, the
  presentation and the number of alerts are the design's on the same events (C19).
  Every step follows the tray protocol (C20), the window can always be recovered with
  one tray action (C21), and the process can always be ended through the tray's Exit
  (C22). The display format \<^verbatim>\<open>mm:ss\<close> keeps every edit to minutes and seconds
  (C23), and the checkable button flips on every click, so the timer runs exactly while
  it is checked (C24). At the boundary count of a duration 0, Python's floor division
  writes \<^verbatim>\<open>-1:59\<close> to the label for the length of the slot, and the \<open>< 0\<close>
  branch restores 00:00 (C25).

  \<^bold>\<open>Bounds and fuel.\<close> No loop of the program needs fuel: the only repetition is
  the event loop, modelled as the relation \<open>reachable\<close> and as \<open>run\<close> over a finite
  list of events. Termination of the timer's loop is proved by a measure
  (\<open>ticks_left\<close>: the count, at least 1, while the timer runs, 0 when it is stopped),
  not by fuel. Counts are Python ints, modelled as \<open>int\<close> with no bound; the
  bound 3599 is proved from \<^verbatim>\<open>QTime\<close>'s validity, not assumed.

  \<^bold>\<open>Not modelled.\<close> What the widgets draw: the presentation calls are modelled as
  the attributes they set, not as pixels. The tray's \<^verbatim>\<open>setContextMenu\<close> call is the
  menu \<open>tray_menu\<close> of theory \<open>App\<close>, not a field. Section-wise stepping of the
  \<^verbatim>\<open>QTimeEdit\<close> (arrow keys, typing): an edit is any valid value that differs from
  the current one in the shown sections only and lies in range, which covers every
  value the widget can produce without fixing how the user gets there. Audio playback
  itself (an external \<^verbatim>\<open>QMediaPlayer\<close>): only the \<^verbatim>\<open>play()\<close> calls are
  counted. Wall-clock time: a tick is an event, not a second.
\<close>

definition collapsed_check :: "int \<Rightarrow> window stmt" where
  "collapsed_check prev s =
     (if prev - 1 \<le> 0
      then py_block ((if prev = 1 then [py_do win_show, py_do tray_hide] else []) @ finish_countdown) s
      else Normal s)"

text \<open>The design note's simplification of \<^verbatim>\<open>timerFunc\<close>: one branch for a count
  that reaches 0 or less, with the window raised only when the previous count was 1.\<close>

definition timerFunc_collapsed :: "window stmt" where
  "timerFunc_collapsed s =
     py_try_attr (py_read counter (\<lambda>prev. py_block [dec_counter, show_counter, collapsed_check prev]))
       timer_handler (sound s)"

text \<open>The state after a user sets 01:00, then 00:00, then presses start.\<close>

definition started_0s :: window where
  "started_0s =
     startStop True (btn_toggle (editTimeFunc (QTime 0 0 0 0)
       ((editTimeFunc (QTime 0 1 0 0) (window_init\<lparr>edit_time := QTime 0 1 0 0\<rparr>))\<lparr>edit_time := QTime 0 0 0 0\<rparr>)))"

lemma started_0s_simps: "timer_active started_0s" "counter started_0s = Some 0" "old_count started_0s = Some 0"
  by (simp_all add: started_0s_def startStop_def editTimeFunc_def qtime_count_def widget_simps)


text \<open>C6: an edit of the time to a valid \<^verbatim>\<open>QTime\<close> sets the count and the configured duration to minutes * 60 + seconds and shows them as two zero-padded digits, a colon and two zero-padded digits.\<close>

theorem editTimeFunc_label:
  assumes "qtime_valid t"
  shows "counter (editTimeFunc t s) = Some (int (qt_minute t * 60 + qt_second t)) \<and>
         old_count (editTimeFunc t s) = counter (editTimeFunc t s) \<and>
         timer_lbl (editTimeFunc t s) =
           [digit_char (qt_minute t div 10), digit_char (qt_minute t mod 10), CHR '':'',
            digit_char (qt_second t div 10), digit_char (qt_second t mod 10)]"
proof -
  from assms have "qt_minute t < 100" "qt_second t < 60" by (simp_all add: qtime_valid_def)
  then show ?thesis
    by (simp add: editTimeFunc_def qtime_count_def widget_simps fmt_mmss_minutes_seconds
        del: of_nat_add of_nat_mult)
qed

theorem editTimeFunc_label_witness:
  "qtime_valid (QTime 0 7 42 0) \<and>
   counter (editTimeFunc (QTime 0 7 42 0) window_init) = Some (int (7 * 60 + 42)) \<and>
   old_count (editTimeFunc (QTime 0 7 42 0) window_init) = counter (editTimeFunc (QTime 0 7 42 0) window_init) \<and>
   timer_lbl (editTimeFunc (QTime 0 7 42 0) window_init) =
     [digit_char (7 div 10), digit_char (7 mod 10), CHR '':'', digit_char (42 div 10), digit_char (42 mod 10)]"
proof -
  have v: "qtime_valid (QTime 0 7 42 0)" by (simp add: qtime_valid_def)
  show ?thesis using v editTimeFunc_label [OF v, of window_init] by simp
qed





text \<open>C8: in every reachable state the label is a well-formed \<^verbatim>\<open>MM:SS\<close> text that reads back as the remaining count (00:00 before any time was entered): the display never shows a value other than the count.\<close>

theorem label_reads_back:
  assumes "reachable (Alive s)"
  shows "parse_mmss (timer_lbl s) = Some (case counter s of None \<Rightarrow> 0 | Some c \<Rightarrow> c)"
proof -
  from assms have ci: "count_inv s" using reachable_app_inv by (fastforce simp: win_inv_def)
  show ?thesis
  proof (cases "time s")
    case None
    with ci have "counter s = None" "timer_lbl s = ''00:00''" by (simp_all add: count_inv_def)
    moreover have "parse_mmss ''00:00'' = Some 0" by code_simp
    ultimately show ?thesis by simp
  next
    case (Some t)
    with ci obtain c where c: "counter s = Some c" "0 \<le> c" "c \<le> qtime_count t"
      "timer_lbl s = fmt_mmss c" and v: "qtime_valid t"
      by (auto simp: count_inv_def split: option.splits)
    from v have "qtime_count t < 6000" by (simp add: qtime_valid_def qtime_count_def)
    with c show ?thesis by (simp add: parse_fmt_mmss)
  qed
qed

theorem label_reads_back_witness:
  "reachable (Alive started_5s) \<and> parse_mmss (timer_lbl started_5s) = Some 5"
  using reachable_started_5s label_reads_back [OF reachable_started_5s] by (simp add: started_5s_simps)


text \<open>C10: the design note's collapsed \<^verbatim>\<open>timerFunc\<close>, a single \<open>remaining \<le> 0\<close> branch that raises the window only when the previous count was 1, is equal to the code's \<^verbatim>\<open>== 0\<close> / \<^verbatim>\<open>< 0\<close> branches on every state, errors included.\<close>

theorem timerFunc_collapsed_eq: "timerFunc_collapsed s = timerFunc s"
proof (cases "counter s")
  case None
  then show ?thesis
    by (simp add: timerFunc_collapsed_def timerFunc_def timer_stmt_defs sound_def)
next
  case (Some c)
  then show ?thesis
    by (simp add: timerFunc_collapsed_def timerFunc_def timer_stmt_defs sound_def collapsed_check_def
        widget_simps py_stmt_simps)
qed


text \<open>C11: in the visible window, pressing start and then stop leaves the count, the duration and the label as they were and the timer stopped; only the timer's interval, set to 1000 ms by the start, differs.\<close>

theorem start_then_stop:
  assumes "win_inv s" "\<not> timer_active s" "visible s"
  shows "run (Alive s) [Click, Click] = Some (Alive (s\<lparr>timer_interval := 1000\<rparr>))"
  using assms by (simp add: enabled_def startStop_def widget_simps inv_defs)

theorem start_then_stop_witness:
  "win_inv window_init \<and> \<not> timer_active window_init \<and> visible window_init \<and>
   run (Alive window_init) [Click, Click] = Some (Alive (window_init\<lparr>timer_interval := 1000\<rparr>))"
  using win_inv_init window_init_simps(10) window_init_simps(14)
    start_then_stop [OF win_inv_init window_init_simps(10) window_init_simps(14)] by simp


text \<open>C12: closing the visible main window never ends or changes the countdown: the process stays alive, the count, duration, timer, button and label are unchanged, ticks are delivered exactly as before, and the window is replaced by the tray icon.\<close>

theorem close_keeps_countdown:
  assumes "reachable (Alive s)" "visible s"
  shows "app_step (Alive s) CloseWindow = Some (Alive (closed_window s)) \<and>
         countdown_view (closed_window s) = countdown_view s \<and>
         \<not> visible (closed_window s) \<and> tray_visible (closed_window s) \<and>
         enabled (closed_window s) Tick = enabled s Tick"
  using assms by (simp add: enabled_def widget_simps countdown_view_def)

theorem close_keeps_countdown_witness:
  "reachable (Alive started_5s) \<and> visible started_5s \<and>
   app_step (Alive started_5s) CloseWindow = Some (Alive (closed_window started_5s)) \<and>
   countdown_view (closed_window started_5s) = countdown_view started_5s \<and>
   \<not> visible (closed_window started_5s) \<and> tray_visible (closed_window started_5s) \<and>
   enabled (closed_window started_5s) Tick = enabled started_5s Tick"
proof -
  have v: "visible started_5s"
    by (simp add: started_5s_def startStop_def editTimeFunc_def widget_simps window_init_simps)
  show ?thesis using reachable_started_5s v close_keeps_countdown [OF reachable_started_5s v] by simp
qed


text \<open>C13: a reachable state whose button reads start receives no tick: ticking while stopped is impossible, so a stopped countdown never decrements.\<close>

theorem tick_only_while_running:
  assumes "reachable (Alive s)" "btn_text s = ''start''"
  shows "app_step (Alive s) Tick = None"
proof -
  from assms(1) have "controls_inv s" using reachable_app_inv by (fastforce simp: win_inv_def)
  with assms(2) show ?thesis by (simp add: controls_inv_def enabled_def split: if_splits)
qed

theorem tick_only_while_running_witness:
  "reachable (Alive window_init) \<and> btn_text window_init = ''start'' \<and> app_step (Alive window_init) Tick = None"
  using reachable.start window_init_simps(9) tick_only_while_running [OF reachable.start window_init_simps(9)]
  by simp


text \<open>C14: while the countdown runs the duration cannot be edited: no edit event reaches \<^verbatim>\<open>editTimeFunc\<close>.\<close>

theorem no_edit_while_running:
  assumes "reachable (Alive s)" "timer_active s"
  shows "app_step (Alive s) (EditTime t) = None"
proof -
  from assms(1) have "controls_inv s" using reachable_app_inv by (fastforce simp: win_inv_def)
  with assms(2) show ?thesis by (simp add: controls_inv_def enabled_def)
qed

theorem no_edit_while_running_witness:
  "reachable (Alive started_5s) \<and> timer_active started_5s \<and>
   app_step (Alive started_5s) (EditTime (QTime 0 0 9 0)) = None"
  using reachable_started_5s started_5s_simps(1)
    no_edit_while_running [OF reachable_started_5s started_5s_simps(1)] by simp


text \<open>C15: every duration the program can hold lies between 0 and 3599 seconds (59:59), and the edit's maximum is still the default 23:59:59.999: \<^verbatim>\<open>QTime(0, 61, 61, 0)\<close> is not a valid time, so \<^verbatim>\<open>setMaximumTime\<close> ignores it and minutes and seconds stay below 60, not up to 61 as the design states.\<close>

theorem duration_bound:
  assumes "reachable (Alive s)" "old_count s = Some d"
  shows "0 \<le> d \<and> d \<le> 3599 \<and> edit_max s = QTime 23 59 59 999"
proof -
  from assms(1) have "count_inv s" using reachable_app_inv by (fastforce simp: win_inv_def)
  with assms(2) show ?thesis
    by (auto simp: count_inv_def qtime_valid_def qtime_count_def split: option.splits)
qed

theorem duration_bound_witness:
  "reachable (Alive started_5s) \<and> old_count started_5s = Some 5 \<and>
   0 \<le> (5::int) \<and> (5::int) \<le> 3599 \<and> edit_max started_5s = QTime 23 59 59 999"
  using reachable_started_5s started_5s_simps(3) duration_bound [OF reachable_started_5s started_5s_simps(3)]
  by simp

text \<open>C18: the well-typedness of every reachable state: the label is a reading
  \<^verbatim>\<open>MM:SS\<close> (two digits, a colon, two digits, both fields below 60), and the
  edit's value, its maximum and the stored \<^verbatim>\<open>self.time\<close> are valid \<^verbatim>\<open>QTime\<close>s.\<close>

theorem reachable_well_typed:
  assumes "reachable (Alive s)"
  shows "mmss_shape (timer_lbl s) \<and> qtime_valid (edit_time s) \<and> qtime_valid (edit_max s)
         \<and> (case time s of None \<Rightarrow> True | Some t \<Rightarrow> qtime_valid t)"
proof -
  from assms have ci: "count_inv s" using reachable_inv by (simp add: win_inv_def)
  show ?thesis
  proof (cases "time s")
    case None
    with ci show ?thesis by (simp add: count_inv_def qtime_valid_def is_digit_def digit_val_def)
  next
    case (Some t)
    with ci obtain c where "timer_lbl s = fmt_mmss c" "0 \<le> c" "c \<le> qtime_count t"
      "qtime_valid t" "edit_time s = t" "edit_max s = QTime 23 59 59 999"
      by (auto simp: count_inv_def split: option.splits)
    moreover from this have "c < 3600" by (simp add: qtime_valid_def qtime_count_def)
    ultimately show ?thesis using Some by (simp add: fmt_mmss_shape qtime_valid_def)
  qed
qed

theorem reachable_well_typed_witness:
  "reachable (Alive started_5s) \<and> mmss_shape (timer_lbl started_5s) \<and>
   qtime_valid (edit_time started_5s) \<and> qtime_valid (edit_max started_5s)"
  using reachable_started_5s reachable_well_typed [OF reachable_started_5s] by simp

text \<open>C23: the display format set by \<^verbatim>\<open>setDisplayFormat('mm:ss')\<close> confines every
  edit to minutes and seconds: in a reachable state an edit the widget can deliver keeps
  the hour and the milliseconds at 0, so the count \<^verbatim>\<open>editTimeFunc\<close> derives from
  minutes and seconds is the whole duration shown, at most 3599 seconds.\<close>

theorem edit_sections_fixed:
  assumes "reachable (Alive s)" "enabled s (EditTime t)"
  shows "qt_hour t = 0 \<and> qt_msec t = 0 \<and> qtime_count t \<le> 3599"
proof -
  from assms(1) have "count_inv s" using reachable_inv by (simp add: win_inv_def)
  with assms(2) have "qtime_valid t" "qt_hour t = 0" "qt_msec t = 0"
    by (simp_all add: count_inv_def enabled_def)
  then show ?thesis by (simp add: qtime_valid_def qtime_count_def)
qed

lemma enabled_init_edit_5s: "enabled window_init (EditTime (QTime 0 0 5 0))"
  by (simp add: enabled_def window_init_simps qtime_valid_def qtime_le_def)

theorem edit_sections_fixed_witness:
  "reachable (Alive window_init) \<and> enabled window_init (EditTime (QTime 0 0 5 0)) \<and>
   qt_hour (QTime 0 0 5 0) = 0 \<and> qt_msec (QTime 0 0 5 0) = 0 \<and> qtime_count (QTime 0 0 5 0) \<le> 3599"
  using reachable.start enabled_init_edit_5s edit_sections_fixed [OF reachable.start enabled_init_edit_5s]
  by simp

text \<open>C24: \<^verbatim>\<open>setCheckable(True)\<close> makes every click flip the button: in a reachable
  state a delivered click leaves the button checkable, checked exactly when it was not,
  and the timer running exactly while it is checked, so \<^verbatim>\<open>startStop\<close> receives the
  new state of the button.\<close>

theorem click_flips_button:
  assumes "reachable (Alive s)" "app_step (Alive s) Click = Some (Alive s')"
  shows "btn_checkable s' \<and> btn_checked s' = (\<not> btn_checked s) \<and> timer_active s' = btn_checked s'"
proof -
  from assms(1) have "controls_inv s" using reachable_inv by (simp add: win_inv_def)
  with assms(2) show ?thesis
    by (auto simp: controls_inv_def enabled_def startStop_def widget_simps split: if_splits)
qed

lemma click_init:
  "app_step (Alive window_init) Click = Some (Alive (startStop True (window_init\<lparr>btn_checked := True\<rparr>)))"
  by (simp add: enabled_def window_init_simps)

theorem click_flips_button_witness:
  "reachable (Alive window_init) \<and>
   app_step (Alive window_init) Click = Some (Alive (startStop True (window_init\<lparr>btn_checked := True\<rparr>))) \<and>
   btn_checkable (startStop True (window_init\<lparr>btn_checked := True\<rparr>)) \<and>
   btn_checked (startStop True (window_init\<lparr>btn_checked := True\<rparr>)) = (\<not> btn_checked window_init)"
  using reachable.start click_init click_flips_button [OF reachable.start click_init] by simp

text \<open>C25: the boundary tick of a configured duration of 0. \<^verbatim>\<open>self.counter -= 1\<close>
  makes the count -1 and the next statement writes \<^verbatim>\<open>'%02d:%02d' % (-1 // 60, -1 % 60)\<close>,
  which is \<^verbatim>\<open>-1:59\<close>, to the label; the \<open>< 0\<close> branch then restores count 0 and
  label 00:00 before the slot returns, so no repaint can show the negative reading.\<close>

theorem overrun_transient_label:
  assumes "counter s = Some 0" "old_count s = Some 0"
  shows "py_block [dec_counter, show_counter] (sound s) =
           Normal ((sound s)\<lparr>counter := Some (-1), timer_lbl := ''-1:59''\<rparr>) \<and>
         timer_lbl (outcome_state (timerFunc s)) = ''00:00'' \<and>
         counter (outcome_state (timerFunc s)) = Some 0"
proof -
  have "py_block [dec_counter, show_counter] (sound s) =
          Normal ((sound s)\<lparr>counter := Some (-1), timer_lbl := ''-1:59''\<rparr>)"
    using assms(1) by (simp add: timer_stmt_defs sound_def widget_simps fmt_mmss_minus_one)
  moreover have "timerFunc s = Normal (completed_state 0 (sound s))"
    using assms by (simp add: timerFunc_overrun)
  ultimately show ?thesis by (simp add: completed_state_def fmt_mmss_zero)
qed

theorem overrun_transient_label_witness:
  "counter started_0s = Some 0 \<and> old_count started_0s = Some 0 \<and>
   py_block [dec_counter, show_counter] (sound started_0s) =
     Normal ((sound started_0s)\<lparr>counter := Some (-1), timer_lbl := ''-1:59''\<rparr>) \<and>
   timer_lbl (outcome_state (timerFunc started_0s)) = ''00:00''"
  using started_0s_simps(2,3) overrun_transient_label [OF started_0s_simps(2,3)] by simp

end
